theory Spec2Isabelle
  imports Main "HOL-Library.AList"
begin

section \<open>Common types\<close>

text \<open>
  Python exceptions raised by the modelled code become values of \<open>error\<close>; a function that
  can raise returns \<open>error + 'a\<close> with \<open>Inl\<close> for the exception.
\<close>

datatype error =
    IndexError | KeyError | RuntimeError | AttributeError | TypeError | ValueError
  | ZeroDivisionError | NameError | RecursionError

text \<open>Sequencing: the second step runs on the result of the first unless that raised.\<close>

definition ebind :: "error + 'a \<Rightarrow> ('a \<Rightarrow> error + 'b) \<Rightarrow> error + 'b" where
  "ebind m f = (case m of Inl e \<Rightarrow> Inl e | Inr x \<Rightarrow> f x)"

type_synonym pos = "int \<times> int"

section \<open>Attribute values\<close>

text \<open>
  The values a Mark pushes and a Context holds. \<open>Color\<close>, \<open>Effects\<close>, the special colour
  constants and the transformer classes are defined outside the sources at hand
  (\<open>terminedia.utils.colors\<close>, \<open>terminedia.values\<close>, \<open>terminedia.transformers\<close>); their
  values are kept symbolic: \<open>Color(v)\<close> is \<open>VColor v\<close> (\<open>NoColour\<close> for \<open>Color(None)\<close>), an \<open>Effects\<close> flag is its integer,
  a direction, as any \<open>V2\<close>, is its vector. \<open>VContext s n\<close> is a reference to a \<open>Context\<close>
  object: the \<open>n\<close>-th one that the StyledSequence at address \<open>s\<close> created for itself.
\<close>

datatype colour = Named string | DEFAULT_FG | DEFAULT_BG | TRANSPARENT | NoColour

text \<open>
  A transformer object as \<open>StyledSequence\<close> uses it: \<open>tr_name\<close> says which transformer it
  is, the other fields are the attributes \<open>_context_push\<close> injects (absent until set);
  \<open>tr_uid\<close> is the identity of the object (\<open>copy\<close> makes a new one). The attribute
  \<open>sequence_index\<close>, which \<open>__iter__\<close> writes and compares in the next statement, is
  not kept.
\<close>

record transformer =
  tr_name :: string
  sequence_len :: "int option"
  tr_sequence :: "string option"
  sequence_absolute_start :: "nat option"
  tr_uid :: nat

datatype val =
    VStr string | VColor colour | VEffects int | VDir pos | VNone | VBool bool
  | VTransformer transformer | VContainer "transformer list" | VContext nat nat

text \<open>The attributes of a \<open>Context\<close> object: a value for each name that is set.\<close>

type_synonym attrs = "string \<rightharpoonup> val"

section \<open>Python strings\<close>

text \<open>
  A Python \<open>str\<close> is modelled as a \<open>string\<close>, a list of characters with code points
  below 256. The methods the sources call are defined here with Python's meaning on that
  range.
\<close>

definition is_space :: "char \<Rightarrow> bool" where
  "is_space c =
     (let n = of_char c :: nat
      in (9 \<le> n \<and> n \<le> 13) \<or> (28 \<le> n \<and> n \<le> 32) \<or> n = 133 \<or> n = 160)"

text \<open>\<open>s.strip()\<close> and \<open>s.strip(chars)\<close>.\<close>

definition strip_chars :: "(char \<Rightarrow> bool) \<Rightarrow> string \<Rightarrow> string" where
  "strip_chars p s = rev (dropWhile p (rev (dropWhile p s)))"

definition strip :: "string \<Rightarrow> string" where
  "strip s = strip_chars is_space s"

text \<open>\<open>s.split(sep)\<close> for a separator of one character: always at least one part.\<close>

fun split_on :: "char \<Rightarrow> string \<Rightarrow> string list" where
  "split_on sep [] = [[]]"
| "split_on sep (c # cs) =
     (if c = sep then [] # split_on sep cs
      else (case split_on sep cs of
              [] \<Rightarrow> [[c]]
            | p # ps \<Rightarrow> (c # p) # ps))"

text \<open>\<open>s.split()\<close>: the maximal runs of characters that are not whitespace.\<close>

fun split_ws_acc :: "string \<Rightarrow> string \<Rightarrow> string list" where
  "split_ws_acc cur [] = (if cur = [] then [] else [rev cur])"
| "split_ws_acc cur (c # cs) =
     (if is_space c then (if cur = [] then split_ws_acc [] cs else rev cur # split_ws_acc [] cs)
      else split_ws_acc (c # cur) cs)"

definition split_ws :: "string \<Rightarrow> string list" where
  "split_ws s = split_ws_acc [] s"

text \<open>\<open>s.lower()\<close> and \<open>s.upper()\<close>. The characters \<open>0xB5\<close>, \<open>0xDF\<close> and \<open>0xFF\<close> have
  upper-case forms outside the modelled range; \<open>upper\<close> leaves them alone.\<close>

definition lower_char :: "char \<Rightarrow> char" where
  "lower_char c =
     (let n = of_char c :: nat
      in if (65 \<le> n \<and> n \<le> 90) \<or> (192 \<le> n \<and> n \<le> 222 \<and> n \<noteq> 215)
         then char_of (n + 32) else c)"

definition upper_char :: "char \<Rightarrow> char" where
  "upper_char c =
     (let n = of_char c :: nat
      in if (97 \<le> n \<and> n \<le> 122) \<or> (224 \<le> n \<and> n \<le> 254 \<and> n \<noteq> 247)
         then char_of (n - 32) else c)"

definition lower :: "string \<Rightarrow> string" where
  "lower s = map lower_char s"

definition upper :: "string \<Rightarrow> string" where
  "upper s = map upper_char s"

definition startswith :: "string \<Rightarrow> string \<Rightarrow> bool" where
  "startswith s p = (take (length p) s = p)"

text \<open>
  \<open>int(s)\<close> for a string: optional whitespace around, an optional sign, then decimal
  digits, single underscores allowed between digits; anything else is a \<open>ValueError\<close>.
\<close>

definition is_digit :: "char \<Rightarrow> bool" where
  "is_digit c = (let n = of_char c :: nat in 48 \<le> n \<and> n \<le> 57)"

definition digit_val :: "char \<Rightarrow> int" where
  "digit_val c = int (of_char c) - 48"

fun digits_value :: "int \<Rightarrow> bool \<Rightarrow> string \<Rightarrow> int option" where
  "digits_value acc after_digit [] = (if after_digit then Some acc else None)"
| "digits_value acc after_digit (c # cs) =
     (if is_digit c then digits_value (acc * 10 + digit_val c) True cs
      else if c = CHR ''_'' \<and> after_digit \<and> cs \<noteq> [] \<and> is_digit (hd cs)
      then digits_value acc False cs
      else None)"

definition py_int :: "string \<Rightarrow> error + int" where
  "py_int s =
     (case strip s of
        [] \<Rightarrow> Inl ValueError
      | c # cs \<Rightarrow>
          (if c = CHR ''-''
           then (case digits_value 0 False cs of None \<Rightarrow> Inl ValueError | Some n \<Rightarrow> Inr (- n))
           else if c = CHR ''+''
           then (case digits_value 0 False cs of None \<Rightarrow> Inl ValueError | Some n \<Rightarrow> Inr n)
           else (case digits_value 0 False (c # cs) of None \<Rightarrow> Inl ValueError | Some n \<Rightarrow> Inr n)))"

text \<open>
  \<open>s[start:stop]\<close> for \<open>start \<ge> 0\<close>: a negative \<open>stop\<close> counts from the end, and both
  ends are clipped to the string.
\<close>

definition slice :: "string \<Rightarrow> nat \<Rightarrow> int \<Rightarrow> string" where
  "slice s start stop =
     (let n = int (length s);
          e = (if stop < 0 then max 0 (n + stop) else min stop n)
      in take (nat e - start) (drop start s))"

section \<open>The character grid of a text plane (text/planes.py)\<close>

text \<open>
  \<open>CharPlaneData\<close> is a \<open>dict\<close> subclass with the slots \<open>width\<close> and \<open>height\<close>; the
  dictionary itself is the field \<open>cells\<close>. The plane size is taken as a pair of integers.
\<close>

record CharPlaneData =
  width :: int
  height :: int
  cells :: "pos \<rightharpoonup> string"

text \<open>
  \<open>CharPlaneData.__getitem__\<close>. The constant \<open>EMPTY\<close> comes from \<open>terminedia.values\<close>,
  which is not part of the sources at hand: it is the first parameter.
\<close>

definition getitem :: "string \<Rightarrow> CharPlaneData \<Rightarrow> pos \<Rightarrow> error + string" where
  "getitem EMPTY p ps =
     (if \<not> (0 \<le> fst ps \<and> fst ps < width p) \<or> \<not> (0 \<le> snd ps \<and> snd ps < height p)
      then Inl IndexError
      else Inr (case cells p ps of None \<Rightarrow> EMPTY | Some c \<Rightarrow> c))"

text \<open>\<open>CharPlaneData.__setitem__\<close>.\<close>

definition setitem :: "CharPlaneData \<Rightarrow> pos \<Rightarrow> string \<Rightarrow> error + CharPlaneData" where
  "setitem p ps v =
     (if \<not> (0 \<le> fst ps \<and> fst ps < width p) \<or> \<not> (0 \<le> snd ps \<and> snd ps < height p)
      then Inl IndexError
      else Inr (p\<lparr>cells := (cells p)(ps \<mapsto> v)\<rparr>))"

text \<open>\<open>dict.__delitem__\<close>, which \<open>CharPlaneData\<close> inherits unchanged, and \<open>dict.clear\<close>.\<close>

definition delitem :: "CharPlaneData \<Rightarrow> pos \<Rightarrow> error + CharPlaneData" where
  "delitem p ps =
     (case cells p ps of
        None \<Rightarrow> Inl KeyError
      | Some _ \<Rightarrow> Inr (p\<lparr>cells := (cells p)(ps := None)\<rparr>))"

definition plane_clear :: "CharPlaneData \<Rightarrow> CharPlaneData" where
  "plane_clear p = p\<lparr>cells := Map.empty\<rparr>"

subsection \<open>The plane object and its per-character write path\<close>

text \<open>
  The resolution tag of a concrete plane (\<open>current_plane\<close>): the keys of \<open>pad_factors\<close>,
  and \<open>ROther\<close> for any other index a caller picked.
\<close>

datatype resolution = R1 | R2 | R3 | R4 | R8x4 | R8 | ROther

text \<open>
  The owner (a Screen or Shape) is an external collaborator: the calls \<open>blit\<close> makes on
  it are recorded in order. \<open>SetChar\<close> is \<open>target[index] = char\<close>, \<open>DrawBlit\<close> is
  \<open>target.<namespace>.draw.blit(index, render(char), erase=clear)\<close>.

  The fields of \<open>Text\<close> are the attributes the modelled methods read or write.
  \<open>padding\<close> is the value of that property; \<open>pad_top\<close> and \<open>pad_left\<close> are what the
  instance stores for these two properties (\<open>None\<close> until one is set explicitly; their
  getter is \<open>pad_getter\<close> below); \<open>size\<close> is the value the property \<open>size\<close> returns
  (it is computed from the owner, which is external).
  \<open>tp_marks\<close> refers to the plane's MarkMap, \<open>writtings\<close> and \<open>writtings_index\<close> to
  StyledSequence objects (a list, and a set kept in insertion order); \<open>owner_context\<close> are
  the attributes of \<open>owner.context\<close>, of which \<open>owner_last_pos\<close> is \<open>last_pos\<close>.
\<close>

datatype canvas_cmd = SetChar pos string | DrawBlit resolution pos string bool

record Text =
  plane :: CharPlaneData
  current_plane :: resolution
  padding :: int
  pad_top :: "int option"
  pad_left :: "int option"
  owner_last_pos :: "pos option"
  planes_last_pos :: "pos option"
  canvas :: "canvas_cmd list"
  size :: pos
  tp_marks :: nat
  ticks :: int
  writtings :: "nat list"
  writtings_index :: "nat list"
  transformers_map :: "string \<rightharpoonup> transformer"
  owner_context :: attrs

fun pad_factors :: "resolution \<Rightarrow> error + (int \<times> int)" where
  "pad_factors R1 = Inr (1, 1)"
| "pad_factors R2 = Inr (2, 4)"
| "pad_factors R3 = Inr (2, 3)"
| "pad_factors R4 = Inr (2, 2)"
| "pad_factors R8x4 = Inr (1, 2)"
| "pad_factors R8 = Inr (1, 1)"
| "pad_factors ROther = Inl KeyError"

text \<open>
  The getter the class body gives each of \<open>pad_left\<close>, \<open>pad_right\<close>, \<open>pad_top\<close> and
  \<open>pad_bottom\<close>:
  \<open>lambda s: s.__dict__.get(name) if s.__dict__.get(pad_name) is not None else s.padding\<close>.
  While nothing is stored for the pad it returns \<open>padding\<close>; once a value is stored it
  evaluates \<open>name\<close>, which is bound nowhere, and raises \<open>NameError\<close>.
\<close>

definition pad_getter :: "Text \<Rightarrow> int option \<Rightarrow> error + int" where
  "pad_getter t stored = (case stored of None \<Rightarrow> Inr (padding t) | Some v \<Rightarrow> Inl NameError)"

text \<open>
  \<open>self.pad_top if self.pad_top is not None else self.padding\<close>: the property is read for
  the test and, as what it returns is a number, read again for the value.
\<close>

definition pad_or_padding :: "Text \<Rightarrow> int option \<Rightarrow> error + int" where
  "pad_or_padding t stored = ebind (pad_getter t stored) (\<lambda>v. pad_getter t stored)"

text \<open>
  \<open>self.padding or self.pad_top or self.pad_left\<close>: a property is read only when the ones
  before it are zero.
\<close>

definition any_padding :: "Text \<Rightarrow> error + bool" where
  "any_padding t =
     (if padding t \<noteq> 0 then Inr True
      else ebind (pad_getter t (pad_top t)) (\<lambda>top.
           if top \<noteq> 0 then Inr True
           else ebind (pad_getter t (pad_left t)) (\<lambda>left. Inr (left \<noteq> 0))))"

text \<open>\<open>Text.blit(index, target=None, clear=True)\<close> with the owner as target.\<close>

definition blit :: "string \<Rightarrow> Text \<Rightarrow> pos \<Rightarrow> bool \<Rightarrow> error + Text" where
  "blit EMPTY t idx clear =
     ebind (getitem EMPTY (plane t) idx) (\<lambda>char.
       if char = EMPTY \<and> \<not> clear then Inr t
       else
         ebind (any_padding t) (\<lambda>padded.
         ebind (if padded
                then ebind (pad_or_padding t (pad_top t)) (\<lambda>top.
                     ebind (pad_or_padding t (pad_left t)) (\<lambda>left.
                     ebind (pad_factors (current_plane t)) (\<lambda>f.
                       Inr (left * fst f, top * snd f))))
                else Inr (0, 0)) (\<lambda>off.
           if current_plane t = R1
           then Inr (t\<lparr>canvas := canvas t @ [SetChar (fst idx + fst off, snd idx + snd off) char]\<rparr>)
           else if current_plane t = ROther then Inl ValueError
           else Inr (t\<lparr>canvas := canvas t @
                  [DrawBlit (current_plane t)
                     (fst idx * 8 + fst off, snd idx * 8 + snd off) char clear]\<rparr>))))"

text \<open>
  \<open>Text._char_at(char, pos)\<close>: the write into the grid sits in
  \<open>try: ... except IndexError: return\<close>; everything after it is outside the \<open>try\<close>.
\<close>

definition char_at :: "string \<Rightarrow> Text \<Rightarrow> string \<Rightarrow> pos \<Rightarrow> error + Text" where
  "char_at EMPTY t char ps =
     (case setitem (plane t) ps char of
        Inl e \<Rightarrow> (if e = IndexError then Inr t else Inl e)
      | Inr p' \<Rightarrow>
          blit EMPTY (t\<lparr>plane := p', owner_last_pos := Some ps, planes_last_pos := Some ps\<rparr>)
            ps True)"

definition in_bounds :: "CharPlaneData \<Rightarrow> pos \<Rightarrow> bool" where
  "in_bounds p ps = (0 \<le> fst ps \<and> fst ps < width p \<and> 0 \<le> snd ps \<and> snd ps < height p)"

section \<open>Marks (text/style.py)\<close>

text \<open>
  \<open>Mark\<close>: each of the four slots is \<open>None\<close> or a value. \<open>attributes\<close> is a dict (its
  items in insertion order), of \<open>pop_attributes\<close> only the keys are ever read; a component
  of \<open>moveto\<close> is a number or the sentinel \<open>RETAIN_POS\<close>. The transient slots \<open>context\<close>
  and \<open>pos\<close>, written before a Mark is evaluated, are never read by the sources.
\<close>

datatype mv = RETAIN_POS | To int

record Mark =
  attributes :: "(string \<times> val) list option"
  pop_attributes :: "string list option"
  moveto :: "(mv \<times> mv) option"
  rmoveto :: "pos option"

text \<open>
  \<open>SpecialMark\<close>: a Mark with an \<open>index\<close> callable of the tick and the length of the text,
  which returns a 1D index into the text or a 2D position (and may raise). The class defines
  no equality, so a set of SpecialMarks goes by object identity: \<open>ident\<close>.
\<close>

datatype skey = Idx1 int | Idx2 pos

record SpecialMark = Mark +
  index :: "int \<Rightarrow> int \<Rightarrow> error + skey"
  ident :: nat

text \<open>A cell of a mark mapping holds one Mark or a list of Marks.\<close>

datatype slot = One Mark | Many "Mark list"

text \<open>
  The \<open>mark_sequence\<close> of a styled text: Marks keyed by offset into the text, and
  optionally the key \<open>"special"\<close> with SpecialMarks.
\<close>

record mark_sequence =
  special_marks :: "SpecialMark list option"
  offset_marks :: "(int \<times> slot) list"

text \<open>
  Where a Mark, or an entry of an attribute stack, comes from: the context as it was when
  iteration started (\<open>"original"\<close>), the plane (\<open>"plane"\<close>) or the styled text itself
  (\<open>"sequence"\<close>).
\<close>

datatype origin = original | plane_origin | sequence_origin

subsection \<open>Coordinates\<close>

text \<open>
  Modelled from the spec: \<open>RelativeMarkIndex\<close>, \<open>WIDTH_INDEX\<close> and \<open>HEIGHT_INDEX\<close> of
  \<open>terminedia.values\<close>, which is not part of the sources at hand. An axis value is
  "N from the near edge" (a plain number) or "N from the far edge": \<open>CRel name offset\<close> is
  \<open>RelativeMarkIndex(name) + offset\<close>, compared by name and offset, and \<open>evaluate\<close> gives
  the far edge of its axis plus the offset. \<open>RelativeMarkIndex(name) + None\<close> is taken as
  offset 0, which is how \<open>get_relative_variants\<close> reads \<open>None\<close>.
  A component of a position is \<open>None\<close>, such an index, or a number.
\<close>

datatype axis = WIDTH | HEIGHT

datatype comp = CNone | CRel axis int | CInt int

type_synonym coord = "comp \<times> comp"

definition evaluate :: "axis \<Rightarrow> int \<Rightarrow> pos \<Rightarrow> int" where
  "evaluate name offset sz = (case name of WIDTH \<Rightarrow> fst sz | HEIGHT \<Rightarrow> snd sz) + offset"

fun relative_or_negative :: "comp \<Rightarrow> bool" where
  "relative_or_negative CNone = True"
| "relative_or_negative (CRel a off) = True"
| "relative_or_negative (CInt n) = (n < 0)"

definition index_is_relative :: "coord \<Rightarrow> bool" where
  "index_is_relative ix =
     (fst ix = CNone \<or> snd ix = CNone \<or> relative_or_negative (fst ix)
      \<or> relative_or_negative (snd ix))"

fun normalize_component :: "comp \<Rightarrow> axis \<Rightarrow> bool \<times> comp" where
  "normalize_component (CRel a off) name = (True, CRel a off)"
| "normalize_component CNone name = (True, CRel name 0)"
| "normalize_component (CInt n) name = (if n < 0 then (True, CRel name n) else (False, CInt n))"

definition normalize_relative_index :: "coord \<Rightarrow> bool \<times> coord" where
  "normalize_relative_index ix =
     (let (r1, x) = normalize_component (fst ix) WIDTH;
          (r2, y) = normalize_component (snd ix) HEIGHT
      in (r1 \<or> r2, (x, y)))"

text \<open>
  \<open>get_relative_variants(pos, size)\<close>. Both components fall back to \<open>WIDTH_INDEX\<close> when
  \<open>None\<close>, as the source has it.
\<close>

fun concrete_component :: "comp \<Rightarrow> int \<Rightarrow> pos \<Rightarrow> int" where
  "concrete_component CNone edge sz = evaluate WIDTH 0 sz"
| "concrete_component (CRel a off) edge sz = evaluate a off sz"
| "concrete_component (CInt n) edge sz = (if n < 0 then edge + n else n)"

definition get_relative_variants :: "coord \<Rightarrow> pos \<Rightarrow> coord list" where
  "get_relative_variants ps sz =
     (let x = concrete_component (fst ps) (fst sz) sz;
          y = concrete_component (snd ps) (snd sz) sz;
          px = CRel WIDTH (0 - (fst sz - x));
          py = CRel HEIGHT (0 - (snd sz - y))
      in [(CInt x, CInt y), (px, CInt y), (CInt x, py), (px, py)])"

subsection \<open>Helpers of MarkMap\<close>

text \<open>\<open>_force_iter\<close> and \<open>_merge_as_lists\<close> (an argument is \<open>None\<close>, a Mark or a list).\<close>

fun force_iter :: "slot \<Rightarrow> Mark list" where
  "force_iter (One m) = [m]"
| "force_iter (Many ms) = ms"

fun merge_items :: "slot option list \<Rightarrow> Mark list" where
  "merge_items [] = []"
| "merge_items (None # xs) = merge_items xs"
| "merge_items (Some (One m) # xs) = m # merge_items xs"
| "merge_items (Some (Many ms) # xs) = ms @ merge_items xs"

definition merge_as_lists :: "slot option list \<Rightarrow> slot" where
  "merge_as_lists args =
     (let result = merge_items args
      in case result of [m] \<Rightarrow> One m | _ \<Rightarrow> Many result)"

text \<open>Python truth value of a cell: a Mark is true, a list is true unless empty.\<close>

fun truthy :: "slot \<Rightarrow> bool" where
  "truthy (One m) = True"
| "truthy (Many ms) = (ms \<noteq> [])"

subsection \<open>Objects\<close>

text \<open>
  A MarkMap holds references to its dicts and to its set of SpecialMarks, and \<open>copy(self)\<close>
  shares them with the copy; so the objects live in a store, a list of objects addressed by
  position. Allocation appends. A dict is its list of items in insertion order.
\<close>

type_synonym addr = nat

record MarkMap =
  data :: addr
  relative_data :: addr
  tick :: int
  seq_data :: mark_sequence
  special :: addr
  concrete_special :: addr
  text_plane :: "addr option"
  is_rendering_copy :: bool
  parsed_text :: "string option"

text \<open>
  \<open>StyledSequence\<close>: the text, its Marks, and the state of the rendering machine.
  \<open>ctx\<close> are the attributes of its private Context; \<open>context_map\<close>, \<open>sq_marks\<close>,
  \<open>active_transformers\<close> and \<open>parent_context_data\<close> are attributes that exist only once
  \<open>_enter_iteration\<close> or \<open>_prepare_context\<close> has set them. \<open>next_uid\<close> numbers the
  transformer objects \<open>copy\<close> creates, \<open>context_serial\<close> the Context objects the sequence
  has created. The constructor's \<open>context\<close> argument is stored and never used; it is left
  out.
\<close>

record StyledSequence =
  sq_text :: string
  mark_seq :: mark_sequence
  last_index_processed :: "nat option"
  ctx :: attrs
  sq_text_plane :: "addr option"
  starting_point :: pos
  current_position :: pos
  sanity_counter :: nat
  context_map :: "(string \<rightharpoonup> (val \<times> origin) list) option"
  sq_marks :: "addr option"
  active_transformers :: "transformer list option"
  parent_context_data :: "attrs option"
  next_uid :: nat
  context_serial :: nat

datatype obj =
    TextObj Text
  | MarkMapObj MarkMap
  | SeqObj StyledSequence
  | DictObj "(coord \<times> slot) list"
  | SetObj "SpecialMark list"
  | SpecialDictObj "(skey \<times> SpecialMark list) list"

type_synonym heap = "obj list"

definition alloc :: "heap \<Rightarrow> obj \<Rightarrow> heap \<times> addr" where
  "alloc h ob = (h @ [ob], length h)"

text \<open>
  Reading an object at the type the code expects. An address that holds something else is
  a \<open>TypeError\<close>; no modelled operation stores such a reference.
\<close>

definition get_markmap :: "heap \<Rightarrow> addr \<Rightarrow> error + MarkMap" where
  "get_markmap h a =
     (if a < length h then (case h ! a of MarkMapObj m \<Rightarrow> Inr m | _ \<Rightarrow> Inl TypeError)
      else Inl TypeError)"

definition get_dict :: "heap \<Rightarrow> addr \<Rightarrow> error + (coord \<times> slot) list" where
  "get_dict h a =
     (if a < length h then (case h ! a of DictObj d \<Rightarrow> Inr d | _ \<Rightarrow> Inl TypeError)
      else Inl TypeError)"

definition get_set :: "heap \<Rightarrow> addr \<Rightarrow> error + SpecialMark list" where
  "get_set h a =
     (if a < length h then (case h ! a of SetObj s \<Rightarrow> Inr s | _ \<Rightarrow> Inl TypeError)
      else Inl TypeError)"

definition get_special_dict :: "heap \<Rightarrow> addr \<Rightarrow> error + (skey \<times> SpecialMark list) list" where
  "get_special_dict h a =
     (if a < length h then (case h ! a of SpecialDictObj d \<Rightarrow> Inr d | _ \<Rightarrow> Inl TypeError)
      else Inl TypeError)"

definition get_text :: "heap \<Rightarrow> addr \<Rightarrow> error + Text" where
  "get_text h a =
     (if a < length h then (case h ! a of TextObj t \<Rightarrow> Inr t | _ \<Rightarrow> Inl TypeError)
      else Inl TypeError)"

definition get_seq :: "heap \<Rightarrow> addr \<Rightarrow> error + StyledSequence" where
  "get_seq h a =
     (if a < length h then (case h ! a of SeqObj s \<Rightarrow> Inr s | _ \<Rightarrow> Inl TypeError)
      else Inl TypeError)"

text \<open>\<open>self.text_plane.size\<close>: an \<open>AttributeError\<close> when \<open>text_plane\<close> is \<open>None\<close>.\<close>

definition plane_size :: "heap \<Rightarrow> MarkMap \<Rightarrow> error + pos" where
  "plane_size h m =
     (case text_plane m of
        None \<Rightarrow> Inl AttributeError
      | Some t \<Rightarrow> ebind (get_text h t) (\<lambda>tp. Inr (size tp)))"

text \<open>\<open>set.add\<close> and \<open>set.update\<close>, by identity.\<close>

definition set_add :: "SpecialMark list \<Rightarrow> SpecialMark \<Rightarrow> SpecialMark list" where
  "set_add s m = (if ident m \<in> ident ` set s then s else s @ [m])"

definition set_update :: "SpecialMark list \<Rightarrow> SpecialMark list \<Rightarrow> SpecialMark list" where
  "set_update s ms = fold (\<lambda>m acc. set_add acc m) ms s"

subsection \<open>MarkMap\<close>

text \<open>\<open>MarkMap.__init__(parent)\<close>: three new dicts and a new set.\<close>

definition MarkMap_init :: "heap \<Rightarrow> addr option \<Rightarrow> heap \<times> MarkMap" where
  "MarkMap_init h parent =
     (let (h1, d) = alloc h (DictObj []);
          (h2, r) = alloc h1 (DictObj []);
          (h3, s) = alloc h2 (SetObj []);
          (h4, c) = alloc h3 (SpecialDictObj [])
      in (h4, \<lparr>data = d, relative_data = r, tick = 0,
               seq_data = \<lparr>special_marks = None, offset_marks = []\<rparr>,
               special = s, concrete_special = c, text_plane = parent,
               is_rendering_copy = False, parsed_text = None\<rparr>))"

definition new_MarkMap :: "heap \<Rightarrow> addr option \<Rightarrow> heap \<times> addr" where
  "new_MarkMap h parent = (let (h1, m) = MarkMap_init h parent in alloc h1 (MarkMapObj m))"

text \<open>
  \<open>concretize_special_marks\<close>: a new dict is bound to \<open>_concrete_special\<close>, then every
  SpecialMark of the set is filed under the index it computes.
\<close>

definition setdefault_append ::
  "(skey \<times> SpecialMark list) list \<Rightarrow> skey \<Rightarrow> SpecialMark \<Rightarrow> (skey \<times> SpecialMark list) list" where
  "setdefault_append d k m =
     AList.update k ((case map_of d k of None \<Rightarrow> [] | Some ms \<Rightarrow> ms) @ [m]) d"

fun file_special ::
  "int \<Rightarrow> int \<Rightarrow> SpecialMark list \<Rightarrow> (skey \<times> SpecialMark list) list
   \<Rightarrow> error + (skey \<times> SpecialMark list) list" where
  "file_special tk n [] d = Inr d"
| "file_special tk n (m # ms) d =
     (case index m tk n of
        Inl e \<Rightarrow> Inl e
      | Inr k \<Rightarrow> file_special tk n ms (setdefault_append d k m))"

definition concretize_special_marks :: "heap \<Rightarrow> addr \<Rightarrow> error + heap" where
  "concretize_special_marks h self =
     ebind (get_markmap h self) (\<lambda>m.
       let (h1, c) = alloc h (SpecialDictObj []);
           h2 = h1[self := MarkMapObj (m\<lparr>concrete_special := c\<rparr>)]
       in ebind (get_set h2 (special m)) (\<lambda>sp.
          case parsed_text m of
            None \<Rightarrow> (case sp of [] \<Rightarrow> Inr h2 | _ \<Rightarrow> Inl AttributeError)
          | Some txt \<Rightarrow>
              ebind (file_special (tick m) (int (length txt)) sp []) (\<lambda>d.
                Inr (h2[c := SpecialDictObj d]))))"

text \<open>
  \<open>concretize_relative_marks\<close>: every item of \<open>relative_data\<close> is merged into \<open>data\<close> at
  the first of its variants for the size the plane has now.
\<close>

definition merge_relative :: "pos \<Rightarrow> (coord \<times> slot) list \<Rightarrow> (coord \<times> slot) list \<Rightarrow> (coord \<times> slot) list" where
  "merge_relative sz rel d =
     fold (\<lambda>(ix, mark) acc.
             let concrete_index = hd (get_relative_variants ix sz);
                 new_mark = (case map_of acc concrete_index of None \<Rightarrow> Many [] | Some v \<Rightarrow> v)
             in AList.update concrete_index (merge_as_lists [Some new_mark, Some mark]) acc)
          rel d"

definition concretize_relative_marks :: "heap \<Rightarrow> addr \<Rightarrow> error + heap" where
  "concretize_relative_marks h self =
     ebind (get_markmap h self) (\<lambda>m.
       case text_plane m of
         None \<Rightarrow> Inr h
       | Some t \<Rightarrow>
           ebind (plane_size h m) (\<lambda>sz.
           ebind (get_dict h (relative_data m)) (\<lambda>rel.
           ebind (get_dict h (data m)) (\<lambda>d.
             Inr (h[data m := DictObj (merge_relative sz rel d)])))))"

text \<open>
  \<open>MarkMap.prepare(seq_data, tick, parsed_text, context)\<close>, statement by statement. The
  \<open>context\<close> argument is only stored on the copy and never read again; it is left out.
\<close>

definition update_markmap :: "heap \<Rightarrow> addr \<Rightarrow> (MarkMap \<Rightarrow> MarkMap) \<Rightarrow> error + heap" where
  "update_markmap h a f = ebind (get_markmap h a) (\<lambda>m. Inr (h[a := MarkMapObj (f m)]))"

definition prepare :: "heap \<Rightarrow> addr \<Rightarrow> mark_sequence \<Rightarrow> int \<Rightarrow> string \<Rightarrow> error + (heap \<times> addr)" where
  "prepare h self sd tk txt =
     ebind (get_markmap h self) (\<lambda>m.
       let (h1, inst) = alloc h (MarkMapObj m)
       in ebind (update_markmap h1 inst
                   (\<lambda>i. i\<lparr>tick := tk, seq_data := sd, parsed_text := Some txt\<rparr>)) (\<lambda>h2.
          ebind (get_markmap h2 self) (\<lambda>m2.
          ebind (get_set h2 (special m2)) (\<lambda>sp.
            let (h3, spa) = alloc h2 (SetObj sp)
            in ebind (update_markmap h3 inst (\<lambda>i. i\<lparr>special := spa\<rparr>)) (\<lambda>h4.
               ebind (get_markmap h4 self) (\<lambda>m4.
               ebind (get_dict h4 (data m4)) (\<lambda>d.
                 let (h5, da) = alloc h4 (DictObj d)
                 in ebind (update_markmap h5 inst (\<lambda>i. i\<lparr>data := da\<rparr>)) (\<lambda>h6.
                    ebind (case special_marks sd of
                             None \<Rightarrow> Inr h6
                           | Some sms \<Rightarrow>
                               ebind (get_markmap h6 inst) (\<lambda>i.
                               ebind (get_set h6 (special i)) (\<lambda>s.
                                 Inr (h6[special i := SetObj (set_update s sms)])))) (\<lambda>h7.
                    ebind (concretize_special_marks h7 inst) (\<lambda>h8.
                    ebind (concretize_relative_marks h8 inst) (\<lambda>h9.
                    ebind (update_markmap h9 inst (\<lambda>i. i\<lparr>is_rendering_copy := True\<rparr>)) (\<lambda>h10.
                      Inr (h10, inst)))))))))))))"

text \<open>
  \<open>MarkMap.__setitem__\<close>, by the kind of index: the tag \<open>"special"\<close>, a position, or a
  \<open>Rect\<close> (given as the cells \<open>iter_cells\<close> yields; the class is not in the sources).
\<close>

definition setitem_special :: "heap \<Rightarrow> addr \<Rightarrow> SpecialMark \<Rightarrow> error + heap" where
  "setitem_special h self v =
     ebind (get_markmap h self) (\<lambda>m.
     ebind (get_set h (special m)) (\<lambda>s.
       Inr (h[special m := SetObj (set_add s v)])))"

definition setitem_at :: "heap \<Rightarrow> addr \<Rightarrow> coord \<Rightarrow> slot \<Rightarrow> error + heap" where
  "setitem_at h self ix v =
     ebind (get_markmap h self) (\<lambda>m.
       let (is_relative, ix') = normalize_relative_index ix
       in if is_relative
          then ebind (get_dict h (relative_data m)) (\<lambda>r.
                 Inr (h[relative_data m := DictObj (AList.update ix' v r)]))
          else ebind (get_dict h (data m)) (\<lambda>d.
                 Inr (h[data m := DictObj (AList.update ix' v d)])))"

fun setitem_rect :: "heap \<Rightarrow> addr \<Rightarrow> coord list \<Rightarrow> slot \<Rightarrow> error + heap" where
  "setitem_rect h self [] v = Inr h"
| "setitem_rect h self (c # cs) v =
     (case setitem_at h self c v of Inl e \<Rightarrow> Inl e | Inr h' \<Rightarrow> setitem_rect h' self cs v)"

text \<open>\<open>MarkMap.__getitem__\<close>, and \<open>get\<close> of \<open>Mapping\<close>, which turns a KeyError into the default.\<close>

definition MarkMap_getitem :: "heap \<Rightarrow> addr \<Rightarrow> coord \<Rightarrow> error + slot" where
  "MarkMap_getitem h self ix =
     ebind (get_markmap h self) (\<lambda>m.
       let is_relative = index_is_relative ix
       in ebind (if is_rendering_copy m \<and> is_relative
                 then ebind (plane_size h m) (\<lambda>sz. Inr (hd (get_relative_variants ix sz)))
                 else Inr ix) (\<lambda>ix1.
          if is_rendering_copy m \<or> (is_relative \<and> text_plane m = None)
          then ebind (get_dict h (data m)) (\<lambda>d.
                 case map_of d ix1 of None \<Rightarrow> Inl KeyError | Some v \<Rightarrow> Inr v)
          else ebind (plane_size h m) (\<lambda>sz.
               ebind (get_dict h (data m)) (\<lambda>d.
               ebind (get_dict h (relative_data m)) (\<lambda>r.
                 let vs = get_relative_variants ix1 sz;
                     all_marks = map_of d (hd vs) # map (map_of r) vs;
                     result = merge_as_lists all_marks
                 in if \<not> truthy result then Inl KeyError else Inr result)))))"

definition MarkMap_get :: "heap \<Rightarrow> addr \<Rightarrow> coord \<Rightarrow> slot \<Rightarrow> error + slot" where
  "MarkMap_get h self ix dflt =
     (case MarkMap_getitem h self ix of
        Inl e \<Rightarrow> (if e = KeyError then Inr dflt else Inl e)
      | Inr v \<Rightarrow> Inr v)"

text \<open>
  \<open>MarkMap.get_full(sequence_index, pos)\<close>: the Marks that apply at an offset of the text
  and a position of the plane, each with its origin. The two arguments are also stored on
  the map, as \<open>sequence_index\<close> and \<open>pos\<close>; no code reads them back, and they are not
  kept.
\<close>

definition get_full :: "heap \<Rightarrow> addr \<Rightarrow> int \<Rightarrow> pos \<Rightarrow> error + (Mark \<times> origin) list" where
  "get_full h self si ps =
     ebind (get_markmap h self) (\<lambda>m.
     ebind (get_special_dict h (concrete_special m)) (\<lambda>cs.
     ebind (MarkMap_get h self (CInt (fst ps), CInt (snd ps)) (Many [])) (\<lambda>here.
       Inr (map (\<lambda>item. (Mark.truncate item, plane_origin))
                (case map_of cs (Idx2 ps) of None \<Rightarrow> [] | Some l \<Rightarrow> l)
            @ map (\<lambda>item. (Mark.truncate item, sequence_origin))
                (case map_of cs (Idx1 si) of None \<Rightarrow> [] | Some l \<Rightarrow> l)
            @ map (\<lambda>item. (item, plane_origin)) (force_iter here)
            @ map (\<lambda>item. (item, sequence_origin))
                (force_iter (case map_of (offset_marks (seq_data m)) si of
                               None \<Rightarrow> Many [] | Some v \<Rightarrow> v))))))"






subsection \<open>Notions used to state properties of MarkMap\<close>

text \<open>
  A MarkMap object as \<open>__init__\<close> builds it and the methods keep it: its fields refer to
  two dicts, a set and, when attached, a plane.
\<close>

definition is_ok :: "error + 'a \<Rightarrow> bool" where
  "is_ok r = (case r of Inl e \<Rightarrow> False | Inr x \<Rightarrow> True)"

definition wf_markmap :: "heap \<Rightarrow> addr \<Rightarrow> bool" where
  "wf_markmap h a =
     (case get_markmap h a of
        Inl e \<Rightarrow> False
      | Inr m \<Rightarrow>
          is_ok (get_dict h (data m)) \<and> is_ok (get_dict h (relative_data m))
          \<and> is_ok (get_set h (special m))
          \<and> (case text_plane m of None \<Rightarrow> True | Some t \<Rightarrow> is_ok (get_text h t)))"

text \<open>
  What a caller can read off a MarkMap: its tick and the contents of its absolute data, its
  relative data and its set of SpecialMarks.
\<close>

definition contents ::
  "heap \<Rightarrow> addr \<Rightarrow> error + (int \<times> (coord \<times> slot) list \<times> (coord \<times> slot) list \<times> SpecialMark list)" where
  "contents h a =
     ebind (get_markmap h a) (\<lambda>m.
     ebind (get_dict h (data m)) (\<lambda>d.
     ebind (get_dict h (relative_data m)) (\<lambda>r.
     ebind (get_set h (special m)) (\<lambda>s.
       Inr (tick m, d, r, s)))))"

text \<open>The Marks a dict holds at a key.\<close>

definition marks_at :: "(coord \<times> slot) list \<Rightarrow> coord \<Rightarrow> Mark list" where
  "marks_at d c = (case map_of d c of None \<Rightarrow> [] | Some v \<Rightarrow> force_iter v)"

text \<open>The first variant: the concrete position of an index for a plane size.\<close>

definition concrete_index :: "coord \<Rightarrow> pos \<Rightarrow> coord" where
  "concrete_index ix sz = hd (get_relative_variants ix sz)"

text \<open>
  The objects \<open>prepare\<close> allocates, in order: the copy, its set of SpecialMarks, its
  \<open>data\<close> and its \<open>_concrete_special\<close>.
\<close>

definition prepared_objects ::
  "MarkMap \<Rightarrow> mark_sequence \<Rightarrow> int \<Rightarrow> string \<Rightarrow> nat \<Rightarrow> SpecialMark list \<Rightarrow> (coord \<times> slot) list
   \<Rightarrow> (skey \<times> SpecialMark list) list \<Rightarrow> obj list" where
  "prepared_objects m sd tk txt n sp d cs =
     [MarkMapObj (m\<lparr>tick := tk, seq_data := sd, parsed_text := Some txt,
                 special := Suc n, data := Suc (Suc n),
                 concrete_special := Suc (Suc (Suc n)), is_rendering_copy := True\<rparr>),
      SetObj sp, DictObj d, SpecialDictObj cs]"

text \<open>
  What the copy made by \<open>prepare\<close> is to hold: the SpecialMarks of the parent's set and of
  the sequence, and the parent's absolute data with the relative data merged in at the
  positions they have for the plane's size.
\<close>

definition effective_special :: "heap \<Rightarrow> MarkMap \<Rightarrow> mark_sequence \<Rightarrow> SpecialMark list" where
  "effective_special h m sd =
     (case get_set h (special m) of
        Inl e \<Rightarrow> []
      | Inr sp \<Rightarrow> (case special_marks sd of None \<Rightarrow> sp | Some sms \<Rightarrow> set_update sp sms))"

definition resolved_data :: "heap \<Rightarrow> MarkMap \<Rightarrow> (coord \<times> slot) list" where
  "resolved_data h m =
     (case get_dict h (data m) of
        Inl e \<Rightarrow> []
      | Inr d \<Rightarrow>
          (case text_plane m of
             None \<Rightarrow> d
           | Some t \<Rightarrow>
               (case get_text h t of
                  Inl e \<Rightarrow> d
                | Inr tp \<Rightarrow>
                    (case get_dict h (relative_data m) of
                       Inl e \<Rightarrow> d
                     | Inr rel \<Rightarrow> merge_relative (size tp) rel d))))"

text \<open>
  The plane's size changes (the owner is resized or the padding is set; both are outside the
  modelled code): the \<open>size\<close> property of the plane object returns the new value.
\<close>

definition resize :: "heap \<Rightarrow> addr \<Rightarrow> pos \<Rightarrow> error + heap" where
  "resize h t sz = ebind (get_text h t) (\<lambda>tp. Inr (h[t := TextObj (tp\<lparr>size := sz\<rparr>)]))"

text \<open>
  The Marks of the relative entries whose concrete position, for a plane of size \<open>sz\<close>, is
  \<open>c\<close>; and the Marks the absolute data of the map at an address holds at \<open>c\<close>.
\<close>

definition relative_marks_at :: "(coord \<times> slot) list \<Rightarrow> pos \<Rightarrow> coord \<Rightarrow> Mark list" where
  "relative_marks_at rel sz c =
     concat (map (\<lambda>iv. if concrete_index (fst iv) sz = c then force_iter (snd iv) else []) rel)"

definition marks_in :: "heap \<Rightarrow> addr \<Rightarrow> coord \<Rightarrow> error + Mark list" where
  "marks_in h a c =
     ebind (get_markmap h a) (\<lambda>m.
     ebind (get_dict h (data m)) (\<lambda>d. Inr (marks_at d c)))"

text \<open>
  The spellings of one coordinate of a plane of size \<open>sz\<close>, in the words of the
  specification: plain, x-from-far-edge, y-from-far-edge, both. A component counts from
  the far edge of its own axis when it is negative or an edge-relative index, and \<open>None\<close>
  is that far edge itself (so \<open>__setitem__\<close> files it).
\<close>

fun resolve :: "comp \<Rightarrow> axis \<Rightarrow> pos \<Rightarrow> int" where
  "resolve CNone name sz = evaluate name 0 sz"
| "resolve (CRel a off) name sz = evaluate a off sz"
| "resolve (CInt n) name sz = (if n < 0 then evaluate name n sz else n)"

definition spellings :: "coord \<Rightarrow> pos \<Rightarrow> coord list" where
  "spellings ix sz =
     (let x = resolve (fst ix) WIDTH sz;
          y = resolve (snd ix) HEIGHT sz
      in [(CInt x, CInt y),
          (CRel WIDTH (x - fst sz), CInt y),
          (CInt x, CRel HEIGHT (y - snd sz)),
          (CRel WIDTH (x - fst sz), CRel HEIGHT (y - snd sz))])"


text \<open>
  The keys of \<open>_concrete_special\<close> under which the SpecialMark of identity \<open>i\<close> is filed,
  and the same read off a rendering copy, and off the copy a call of \<open>prepare\<close> returns.
\<close>

definition filed_under :: "(skey \<times> SpecialMark list) list \<Rightarrow> nat \<Rightarrow> skey list" where
  "filed_under cs i = map fst (filter (\<lambda>kv. i \<in> ident ` set (snd kv)) cs)"

definition concrete_positions :: "heap \<Rightarrow> addr \<Rightarrow> nat \<Rightarrow> error + skey list" where
  "concrete_positions h inst i =
     ebind (get_markmap h inst) (\<lambda>m.
     ebind (get_special_dict h (concrete_special m)) (\<lambda>cs.
       Inr (filed_under cs i)))"

definition positions_after_prepare ::
  "heap \<Rightarrow> addr \<Rightarrow> mark_sequence \<Rightarrow> int \<Rightarrow> string \<Rightarrow> nat \<Rightarrow> error + skey list" where
  "positions_after_prepare h self sd tk tx i =
     ebind (prepare h self sd tk tx) (\<lambda>r. concrete_positions (fst r) (snd r) i)"

text \<open>The index callable \<open>lambda tick, length: tick % length\<close>.\<close>

definition tick_mod_len :: "int \<Rightarrow> int \<Rightarrow> error + skey" where
  "tick_mod_len tk n = (if n = 0 then Inl ZeroDivisionError else Inr (Idx1 (tk mod n)))"

section \<open>The markup tokenizer (text/style.py, MLTokenizer)\<close>

subsection \<open>Finding the tags\<close>

text \<open>
  \<open>_parser = re.compile(r"(?<!\[)\[[^\[].*?\]")\<close>: a tag starts at a \<open>[\<close> that is not
  preceded by a \<open>[\<close>, takes one character that is not \<open>[\<close>, then as few characters other
  than a newline as possible, up to a \<open>]\<close>. \<open>find_close\<close> reads the lazy part and the
  closing bracket; \<open>match_at\<close> is a match at the start of a string, with what follows it.
\<close>

fun find_close :: "string \<Rightarrow> (string \<times> string) option" where
  "find_close [] = None"
| "find_close (c # cs) =
     (if c = CHR '']'' then Some ([c], cs)
      else if c = CHR 0x0A then None
      else (case find_close cs of None \<Rightarrow> None | Some (a, b) \<Rightarrow> Some (c # a, b)))"

fun match_at :: "string \<Rightarrow> (string \<times> string) option" where
  "match_at (b # c # cs) =
     (if b = CHR ''['' \<and> c \<noteq> CHR ''[''
      then (case find_close cs of None \<Rightarrow> None | Some (a, r) \<Rightarrow> Some (b # c # a, r))
      else None)"
| "match_at s = None"

text \<open>
  \<open>self._parser.sub(annotate_and_strip_tokens, self.raw_text)\<close>: the text is scanned from
  the left; \<open>prev\<close> is the character before the current position, \<open>start\<close> the position
  in the raw text and \<open>offset\<close> the total length of the matches so far. A match is replaced
  by the empty string and recorded as \<open>(match.start() - offset, token.strip("[]"))\<close>; the
  scan goes on after it.
\<close>

definition is_bracket :: "char \<Rightarrow> bool" where
  "is_bracket c = (c = CHR ''['' \<or> c = CHR '']'')"

function sub_tokens ::
  "char option \<Rightarrow> nat \<Rightarrow> nat \<Rightarrow> string \<Rightarrow> string \<times> (int \<times> string) list" where
  "sub_tokens prev start offset [] = ([], [])"
| "sub_tokens prev start offset (c # cs) =
     (case (if prev = Some (CHR ''['') then None else match_at (c # cs)) of
        Some (token, rest) \<Rightarrow>
          (let (parsed, raw_tokens) =
                 sub_tokens (Some (last token)) (start + length token) (offset + length token)
                   (drop (length token - 1) cs)
           in (parsed, (int start - int offset, strip_chars is_bracket token) # raw_tokens))
      | None \<Rightarrow>
          (let (parsed, raw_tokens) = sub_tokens (Some c) (Suc start) offset cs
           in (c # parsed, raw_tokens)))"
  by pat_completeness auto
termination
  by (relation "measure (\<lambda>(prev, start, offset, s). length s)") auto

subsection \<open>From tags to Marks\<close>

text \<open>
  The value of a tag while it is worked on: \<open>None\<close>, a string, or one of the constants
  \<open>DEFAULT_FG\<close>, \<open>DEFAULT_BG\<close>, \<open>TRANSPARENT\<close>. These constants are objects of
  \<open>terminedia.values\<close> (not in the sources at hand) and are taken to have no string
  methods: calling one on them is an \<open>AttributeError\<close>, as it is on \<open>None\<close>.
\<close>

datatype tag_value = TNone | TStr string | TSpecial colour

text \<open>
  The attribute a starting tag pushes. \<open>Color(value)\<close> is kept symbolic; the members of
  the \<open>Effects\<close> enum are the parameter \<open>members\<close>
  (\<open>Effects.__members__.get(name, 0)\<close> is \<open>0\<close> for a name it does not have);
  \<open>getattr(Directions, NAME)\<close> knows the four directions.
\<close>

definition Directions :: "string \<Rightarrow> error + pos" where
  "Directions name =
     (if name = ''UP'' then Inr (0, - 1)
      else if name = ''RIGHT'' then Inr (1, 0)
      else if name = ''DOWN'' then Inr (0, 1)
      else if name = ''LEFT'' then Inr (- 1, 0)
      else Inl AttributeError)"

definition is_color_action :: "string \<Rightarrow> bool" where
  "is_color_action action =
     (action = ''color'' \<or> action = ''foreground'' \<or> action = ''background'')"

definition attribute_names :: "string list" where
  "attribute_names =
     [''effects'', ''color'', ''foreground'', ''background'', ''direction'',
      ''pretransformer'', ''char'', ''font'']"

definition attribute_value ::
  "(string \<Rightarrow> int option) \<Rightarrow> string \<Rightarrow> tag_value \<Rightarrow> error + val" where
  "attribute_value members action v =
     (if is_color_action action
      then Inr (case v of TNone \<Rightarrow> VColor NoColour | TStr s \<Rightarrow> VColor (Named s)
                | TSpecial c \<Rightarrow> VColor c)
      else if action = ''effects''
      then (case v of
              TStr s \<Rightarrow>
                Inr (VEffects (sum_list (map (\<lambda>n. case members (strip n) of None \<Rightarrow> 0 | Some k \<Rightarrow> k)
                                               (split_on CHR ''|'' s))))
            | _ \<Rightarrow> Inl AttributeError)
      else if action = ''direction''
      then (case v of
              TStr s \<Rightarrow> (case Directions (upper s) of Inl e \<Rightarrow> Inl e | Inr d \<Rightarrow> Inr (VDir d))
            | _ \<Rightarrow> Inl AttributeError)
      else Inr (case v of TNone \<Rightarrow> VNone | TStr s \<Rightarrow> VStr s | TSpecial c \<Rightarrow> VColor c))"

text \<open>A tag of two comma separated numbers: the cursor movement it stands for.\<close>

definition signed :: "string \<Rightarrow> error + bool" where
  "signed s = (case s of [] \<Rightarrow> Inl IndexError | c # cs \<Rightarrow> Inr (c = CHR ''+'' \<or> c = CHR ''-''))"

definition movement :: "string \<Rightarrow> error + ((mv \<times> mv) option \<times> pos option)" where
  "movement action =
     (case map strip (split_on CHR '','' action) of
        [nx, ny] \<Rightarrow>
          (case py_int nx of Inl e \<Rightarrow> Inl e | Inr nnx \<Rightarrow>
          (case py_int ny of Inl e \<Rightarrow> Inl e | Inr nny \<Rightarrow>
          (case signed nx of Inl e \<Rightarrow> Inl e | Inr sx \<Rightarrow>
          (case signed ny of Inl e \<Rightarrow> Inl e | Inr sy \<Rightarrow>
             Inr (if sx \<and> sy then (None, Some (nnx, nny))
                  else if sx \<and> \<not> sy then (Some (RETAIN_POS, To nny), Some (nnx, 0))
                  else if \<not> sx \<and> sy then (Some (To nnx, RETAIN_POS), Some (0, nny))
                  else (Some (To nnx, To nny), None))))))
      | _ \<Rightarrow> Inl ValueError)"

text \<open>
  The state of the loop of \<open>_tokens_to_marks\<close>: the mark sequence built so far (a dict from
  offset to a Mark or a list of Marks), the stack of open transformer tags, and the two
  counters.
\<close>

record tokens_state =
  ts_marks :: "(int \<times> slot) list"
  transformer_stack :: "(tag_value \<times> int \<times> nat) list"
  last_offset :: int
  offset_repeat_counter :: int

text \<open>\<open>Mark.merge(m1, m2)\<close>.\<close>

fun Mark_merge :: "slot \<Rightarrow> Mark \<Rightarrow> slot" where
  "Mark_merge (One m1) m2 = Many [m1, m2]"
| "Mark_merge (Many ms) m2 = Many (ms @ [m2])"

text \<open>
  The closing transformer tag writes the span into the opening Mark:
  \<open>closing_mark.attributes["pretransformer"] += f" {spam}"\<close>. \<open>str_of_int\<close> is the
  decimal numeral.
\<close>

fun digits_of :: "nat \<Rightarrow> nat \<Rightarrow> string" where
  "digits_of 0 n = []"
| "digits_of (Suc fuel) n =
     (if n < 10 then [char_of (48 + n)]
      else digits_of fuel (n div 10) @ [char_of (48 + n mod 10)])"

definition str_of_int :: "int \<Rightarrow> string" where
  "str_of_int i =
     (if i < 0 then CHR ''-'' # digits_of (Suc (nat (- i))) (nat (- i))
      else digits_of (Suc (nat i)) (nat i))"

definition add_span :: "Mark \<Rightarrow> int \<Rightarrow> error + Mark" where
  "add_span m spam =
     (case attributes m of
        None \<Rightarrow> Inl TypeError
      | Some attrs \<Rightarrow>
          (case map_of attrs ''pretransformer'' of
             None \<Rightarrow> Inl KeyError
           | Some (VStr s) \<Rightarrow>
               Inr (m\<lparr>attributes :=
                      Some (AList.update ''pretransformer''
                              (VStr (s @ '' '' @ str_of_int spam)) attrs)\<rparr>)
           | Some _ \<Rightarrow> Inl TypeError))"

definition close_transformer ::
  "(int \<times> slot) list \<Rightarrow> int \<Rightarrow> nat \<Rightarrow> int \<Rightarrow> error + (int \<times> slot) list" where
  "close_transformer ms oppening_offset oppening_repeat spam =
     (case map_of ms oppening_offset of
        None \<Rightarrow> Inl KeyError
      | Some (One m) \<Rightarrow>
          (case add_span m spam of
             Inl e \<Rightarrow> Inl e
           | Inr m' \<Rightarrow> Inr (AList.update oppening_offset (One m') ms))
      | Some (Many l) \<Rightarrow>
          (if oppening_repeat < length l
           then (case add_span (l ! oppening_repeat) spam of
                   Inl e \<Rightarrow> Inl e
                 | Inr m' \<Rightarrow> Inr (AList.update oppening_offset (Many (l[oppening_repeat := m'])) ms))
           else Inl IndexError))"

text \<open>One turn of the loop of \<open>_tokens_to_marks\<close>, for the tag \<open>token\<close> at \<open>offset\<close>.\<close>

definition token_to_mark ::
  "(string \<Rightarrow> int option) \<Rightarrow> tokens_state \<Rightarrow> int \<times> string \<Rightarrow> error + tokens_state" where
  "token_to_mark members st ot =
     (let offset = fst ot; token = snd ot;
          counter = (if offset = last_offset st then offset_repeat_counter st + 1 else 0)
      in
      case (if CHR '':'' \<in> set token
            then (case map strip (split_on CHR '':'' token) of
                    [a, v] \<Rightarrow>
                      (let action = lower a;
                           action = (if action = ''effect'' then ''effects'' else action);
                           v = (if action \<noteq> ''transformer'' \<and> action \<noteq> ''font'' \<and> action \<noteq> ''char''
                                then lower v else v)
                       in Inr (action, TStr v))
                  | _ \<Rightarrow> Inl ValueError)
            else (let action = strip token
                  in if action = ''left'' \<or> action = ''right'' \<or> action = ''up'' \<or> action = ''down''
                     then Inr (''direction'', TStr action)
                     else Inr (action, TNone))) of
        Inl e \<Rightarrow> Inl e
      | Inr (action0, value0) \<Rightarrow>
      let starting_tag = \<not> startswith action0 ''/'';
          action = (if starting_tag then action0 else drop 1 action0);
          v1 = (if (action = ''color'' \<or> action = ''foreground'') \<and> value0 = TStr ''default''
                then TSpecial DEFAULT_FG else value0);
          v2 = (if action = ''background'' \<and> v1 = TStr ''default'' then TSpecial DEFAULT_BG else v1);
          v3 = (if v2 = TStr ''transparent'' \<and> (action = ''effects'' \<or> is_color_action action)
                then TSpecial TRANSPARENT else v2)
      in
      case (case v3 of
              TNone \<Rightarrow> Inr v3
            | TStr s \<Rightarrow>
                if s \<noteq> [] \<and> startswith s ''('' \<and> is_color_action action
                then Inl NameError else Inr v3
            | TSpecial c \<Rightarrow> Inl AttributeError) of
        Inl e \<Rightarrow> Inl e
      | Inr v \<Rightarrow>
      case (if action = ''transformer''
            then (if starting_tag
                  then Inr (''pretransformer'', ts_marks st,
                            transformer_stack st @ [(v, offset, nat counter)])
                  else (case rev (transformer_stack st) of
                          [] \<Rightarrow> Inl IndexError
                        | (closing_transformer, oppening_offset, oppening_repeat) # below \<Rightarrow>
                            (case closing_transformer of
                               TStr s \<Rightarrow>
                                 if CHR '' '' \<notin> set s
                                 then (case close_transformer (ts_marks st) oppening_offset
                                              oppening_repeat (offset - oppening_offset) of
                                         Inl e \<Rightarrow> Inl e
                                       | Inr ms \<Rightarrow> Inr (''pretransformer'', ms, rev below))
                                 else Inr (''pretransformer'', ts_marks st, rev below)
                             | _ \<Rightarrow> Inl TypeError)))
            else Inr (action, ts_marks st, transformer_stack st)) of
        Inl e \<Rightarrow> Inl e
      | Inr (action, ms, tstack) \<Rightarrow>
      case (if action \<in> set attribute_names
            then (if starting_tag
                  then (case attribute_value members action v of
                          Inl e \<Rightarrow> Inl e
                        | Inr av \<Rightarrow> Inr (Some [(action, av)], None))
                  else Inr (None, Some [action]))
            else Inr (None, None)) of
        Inl e \<Rightarrow> Inl e
      | Inr (attrs, pops) \<Rightarrow>
      case (if CHR '','' \<in> set action \<and> attrs = None \<and> pops = None
            then movement action else Inr (None, None)) of
        Inl e \<Rightarrow> Inl e
      | Inr (mt, rmt) \<Rightarrow>
          (let mark = \<lparr>attributes = attrs, pop_attributes = pops, moveto = mt, rmoveto = rmt\<rparr>;
               cell = (case map_of ms offset of None \<Rightarrow> One mark | Some old \<Rightarrow> Mark_merge old mark)
           in Inr \<lparr>ts_marks = AList.update offset cell ms, transformer_stack = tstack,
                   last_offset = offset, offset_repeat_counter = counter\<rparr>))"

fun tokens_loop ::
  "(string \<Rightarrow> int option) \<Rightarrow> tokens_state \<Rightarrow> (int \<times> string) list \<Rightarrow> error + tokens_state" where
  "tokens_loop members st [] = Inr st"
| "tokens_loop members st (t # ts) =
     (case token_to_mark members st t of
        Inl e \<Rightarrow> Inl e
      | Inr st' \<Rightarrow> tokens_loop members st' ts)"

definition tokens_to_marks ::
  "(string \<Rightarrow> int option) \<Rightarrow> (int \<times> string) list \<Rightarrow> error + (int \<times> slot) list" where
  "tokens_to_marks members raw_tokens =
     (case tokens_loop members
             \<lparr>ts_marks = [], transformer_stack = [], last_offset = - 1,
              offset_repeat_counter = - 1\<rparr> raw_tokens of
        Inl e \<Rightarrow> Inl e
      | Inr st \<Rightarrow> Inr (ts_marks st))"

subsection \<open>The tokenizer object\<close>

record MLTokenizer =
  raw_text :: string
  tk_parsed_text :: "string option"
  tk_mark_sequence :: "(int \<times> slot) list option"

definition update :: "MLTokenizer \<Rightarrow> string \<Rightarrow> MLTokenizer" where
  "update self s = self\<lparr>raw_text := raw_text self @ s\<rparr>"

definition MLTokenizer_init :: "string \<Rightarrow> MLTokenizer" where
  "MLTokenizer_init initial =
     update \<lparr>raw_text = [], tk_parsed_text = None, tk_mark_sequence = None\<rparr> initial"

text \<open>
  \<open>parse\<close>: \<open>parsed_text\<close> is set first, then \<open>_tokens_to_marks\<close> runs (an exception of its
  leaves the object without a new mark sequence; the model returns the exception).
\<close>

definition parse :: "(string \<Rightarrow> int option) \<Rightarrow> MLTokenizer \<Rightarrow> error + MLTokenizer" where
  "parse members self =
     (let (parsed, raw_tokens) = sub_tokens None 0 0 (raw_text self)
      in case tokens_to_marks members raw_tokens of
           Inl e \<Rightarrow> Inl e
         | Inr ms \<Rightarrow> Inr (self\<lparr>tk_parsed_text := Some parsed, tk_mark_sequence := Some ms\<rparr>))"

section \<open>Contexts (contexts.py)\<close>

text \<open>
  A \<open>Context\<close> is the mapping from attribute names to the values set on it (\<open>attrs\<close>).
  Seven names are \<open>ContextVar\<close>s of the class: reading one that is not set gives its
  default. \<open>BlockChars.FULL_BLOCK\<close> is the character U+2588, here in UTF-8.
  \<open>Context.__setattr__\<close> is the update of the mapping; the conversion \<open>ContextVar.__set__\<close>
  applies to a value that is not of the variable's type is not modelled (the values are
  symbolic), nor is the flag \<open>_dirty\<close>.
\<close>

definition FULL_BLOCK :: string where
  "FULL_BLOCK = [CHR 0xE2, CHR 0x96, CHR 0x88]"

definition ContextVar_default :: "string \<Rightarrow> val option" where
  "ContextVar_default name =
     (if name = ''char'' then Some (VStr FULL_BLOCK)
      else if name = ''color'' then Some (VColor DEFAULT_FG)
      else if name = ''background'' then Some (VColor DEFAULT_BG)
      else if name = ''effects'' then Some (VEffects 0)
      else if name = ''direction'' then Some (VDir (1, 0))
      else if name = ''transformer'' then Some VNone
      else if name = ''font'' then Some (VStr [])
      else None)"

text \<open>\<open>getattr(context, name)\<close>: \<open>ContextVar.__get__\<close>, or \<open>Context.__getattr__\<close>.\<close>

definition Context_getattr :: "attrs \<Rightarrow> string \<Rightarrow> error + val" where
  "Context_getattr c name =
     (case c name of
        Some v \<Rightarrow> Inr v
      | None \<Rightarrow> (case ContextVar_default name of Some d \<Rightarrow> Inr d | None \<Rightarrow> Inl AttributeError))"

text \<open>
  \<open>ContextVar.__get__\<close> also stores the default it returns: \<open>with_defaults\<close> is the mapping
  after every variable has been read. \<open>Context.__iter__\<close> yields the variables and then
  the other names that are set, leaving out names that start with an underscore.
\<close>

definition with_defaults :: "attrs \<Rightarrow> attrs" where
  "with_defaults c = (\<lambda>name. case c name of Some v \<Rightarrow> Some v | None \<Rightarrow> ContextVar_default name)"

definition Context_iter :: "attrs \<Rightarrow> attrs" where
  "Context_iter c = (\<lambda>name. if startswith name ''_'' then None else with_defaults c name)"

text \<open>
  \<open>Context()\<close> with no arguments: \<open>_update_from_global\<close> copies the attributes of
  \<open>terminedia.context\<close> except \<open>default_bg\<close> and \<open>default_fg\<close>; the global context is
  \<open>None\<close> while the package has not created it.
\<close>

definition Context_new :: "attrs option \<Rightarrow> attrs" where
  "Context_new root =
     (case root of
        None \<Rightarrow> Map.empty
      | Some g \<Rightarrow> (\<lambda>name. if name = ''default_bg'' \<or> name = ''default_fg'' then None
                          else Context_iter g name))"

text \<open>Python truth value of an attribute value, as far as the values are modelled.\<close>

fun truthy_val :: "val \<Rightarrow> bool" where
  "truthy_val (VStr s) = (s \<noteq> [])"
| "truthy_val (VEffects n) = (n \<noteq> 0)"
| "truthy_val VNone = False"
| "truthy_val (VBool b) = b"
| "truthy_val (VContainer l) = (l \<noteq> [])"
| "truthy_val v = True"

section \<open>StyledSequence (text/style.py)\<close>

text \<open>
  What the modelled code takes from outside the sources: the constant \<open>EMPTY\<close> of
  \<open>terminedia.values\<close>, the global context \<open>terminedia.context\<close>, the value of
  \<open>get_current_tick()\<close>, the members of the \<open>Effects\<close> enum, and the depth of recursion
  the interpreter allows.
\<close>

record env =
  EMPTY_char :: string
  root_context :: "attrs option"
  current_tick :: int
  Effects_members :: "string \<Rightarrow> int option"
  recursion_limit :: nat

definition V2_add :: "pos \<Rightarrow> pos \<Rightarrow> pos" where
  "V2_add a b = (fst a + fst b, snd a + snd b)"

text \<open>
  \<open>StyledSequence.__init__\<close>: \<open>V2(starting_point) if starting_point else V2(0, 0)\<close>; a
  tuple of two numbers is true.
\<close>

definition StyledSequence_init ::
  "env \<Rightarrow> string \<Rightarrow> mark_sequence \<Rightarrow> addr option \<Rightarrow> pos option \<Rightarrow> StyledSequence" where
  "StyledSequence_init E tx ms tp sp =
     \<lparr>sq_text = tx, mark_seq = ms, last_index_processed = None,
      ctx = Context_new (root_context E), sq_text_plane = tp,
      starting_point = (case sp of None \<Rightarrow> (0, 0) | Some p \<Rightarrow> p),
      current_position = (case sp of None \<Rightarrow> (0, 0) | Some p \<Rightarrow> p),
      sanity_counter = 0, context_map = None, sq_marks = None,
      active_transformers = None, parent_context_data = None, next_uid = 0,
      context_serial = 0\<rparr>"

subsection \<open>\<open>_context_push\<close>\<close>

definition seq_attrs :: "string \<Rightarrow> string option" where
  "seq_attrs key =
     (if key = ''transformer'' then Some ''transformers''
      else if key = ''pretransformer'' then Some ''pretransformers''
      else None)"

type_synonym stack = "(val \<times> origin) list"

text \<open>
  The inner loop over \<open>reversed(stack)\<close>: the first entry met whose origin is the Mark's is
  removed, and the loop stops.
\<close>

fun remove_first :: "origin \<Rightarrow> stack \<Rightarrow> stack" where
  "remove_first mark_origin [] = []"
| "remove_first mark_origin (e # es) =
     (if snd e = mark_origin then es else e # remove_first mark_origin es)"

definition pop_origin :: "origin \<Rightarrow> stack \<Rightarrow> stack" where
  "pop_origin mark_origin st = rev (remove_first mark_origin (rev st))"

text \<open>
  The loop over \<open>pop_attributes\<close>. \<open>changed\<close> is a set of names, kept as a list without
  repetitions.
\<close>

fun pop_loop ::
  "origin \<Rightarrow> string list \<Rightarrow> (string \<rightharpoonup> stack) \<times> string list
   \<Rightarrow> (string \<rightharpoonup> stack) \<times> string list" where
  "pop_loop mark_origin [] st = st"
| "pop_loop mark_origin (key # keys) (cm, changed) =
     (let key1 = (case seq_attrs key of Some k \<Rightarrow> k | None \<Rightarrow> key);
          st = (case cm key1 of None \<Rightarrow> [] | Some s \<Rightarrow> s);
          cm1 = cm(key1 \<mapsto> st)
      in if st = [] then pop_loop mark_origin keys (cm1, changed)
         else pop_loop mark_origin keys
                (cm1(key1 \<mapsto> pop_origin mark_origin st), List.insert key1 changed))"

text \<open>
  The transformer branch of the loop over \<open>attributes\<close>: the container now in the Context
  is copied, the transformer is looked up by name in the plane's \<open>transformers_map\<close> (or is
  the value itself), copied, given its span, and appended. \<open>TransformersContainer\<close> is not
  in the sources at hand; it is taken as a list of transformers. A value that is neither a
  string nor a transformer cannot take the injected attributes.
\<close>

definition new_transformer ::
  "heap \<Rightarrow> StyledSequence \<Rightarrow> nat \<Rightarrow> string \<Rightarrow> val \<Rightarrow> error + (val \<times> transformer)" where
  "new_transformer h sq idx key v =
     ebind (Context_getattr (ctx sq) key) (\<lambda>new_value.
       let spam = int (length (sq_text sq)) - int idx
       in ebind (case v of
                   VStr s \<Rightarrow>
                     ebind (if CHR '' '' \<in> set s
                            then (case split_ws s of
                                    [a, b] \<Rightarrow> ebind (py_int b) (\<lambda>n. Inr (a, n))
                                  | _ \<Rightarrow> Inl ValueError)
                            else Inr (s, spam)) (\<lambda>(name, spam1).
                     case sq_text_plane sq of
                       None \<Rightarrow> Inl AttributeError
                     | Some t \<Rightarrow>
                         ebind (get_text h t) (\<lambda>tp.
                           case transformers_map tp name of
                             None \<Rightarrow> Inl AttributeError
                           | Some tr \<Rightarrow> Inr (tr, spam1)))
                 | VTransformer tr \<Rightarrow>
                     Inr (tr, case sequence_len tr of Some n \<Rightarrow> n | None \<Rightarrow> spam)
                 | _ \<Rightarrow> Inl AttributeError) (\<lambda>(tr, spam2).
            let tr1 = tr\<lparr>sequence_len := Some spam2,
                        tr_sequence := Some (slice (sq_text sq) idx (int idx + spam2)),
                        sequence_absolute_start := Some idx,
                        tr_uid := next_uid sq\<rparr>
            in case new_value of
                 VContainer l \<Rightarrow> Inr (VContainer (l @ [tr1]), tr1)
               | _ \<Rightarrow> Inl AttributeError))"

text \<open>The loop over \<open>attributes.items()\<close>.\<close>

fun push_loop ::
  "heap \<Rightarrow> origin \<Rightarrow> nat \<Rightarrow> (string \<times> val) list \<Rightarrow> StyledSequence \<times> (string \<rightharpoonup> stack) \<times> string list
   \<Rightarrow> error + (StyledSequence \<times> (string \<rightharpoonup> stack) \<times> string list)" where
  "push_loop h mark_origin idx [] st = Inr st"
| "push_loop h mark_origin idx ((key, v) # rest) (sq, cm, changed) =
     ebind (case seq_attrs key of
              None \<Rightarrow> Inr (key, v, sq)
            | Some key1 \<Rightarrow>
                ebind (new_transformer h sq idx key1 v) (\<lambda>(new_value, tr).
                  case active_transformers sq of
                    None \<Rightarrow> Inl AttributeError
                  | Some act \<Rightarrow>
                      Inr (key1, new_value,
                           sq\<lparr>active_transformers := Some (act @ [tr]),
                              next_uid := Suc (next_uid sq)\<rparr>))) (\<lambda>(key2, value2, sq1).
       push_loop h mark_origin idx rest
         (sq1,
          cm(key2 \<mapsto> (case cm key2 of None \<Rightarrow> [] | Some s \<Rightarrow> s) @ [(value2, mark_origin)]),
          List.insert key2 changed))"

text \<open>
  The last loop: \<open>for attr in changed: if cm[attr]: setattr(self.context, attr,
  cm[attr][-1][0])\<close>.
\<close>

fun write_back :: "(string \<rightharpoonup> stack) \<Rightarrow> string list \<Rightarrow> attrs \<Rightarrow> error + attrs" where
  "write_back cm [] c = Inr c"
| "write_back cm (attr # rest) c =
     (case cm attr of
        None \<Rightarrow> Inl KeyError
      | Some st \<Rightarrow> write_back cm rest (if st \<noteq> [] then c(attr \<mapsto> fst (last st)) else c))"

text \<open>
  \<open>_context_push(attributes, pop_attributes, mark_origin, index)\<close>. The attribute
  \<open>locals.context_map\<close> exists once \<open>_enter_iteration\<close> has run.
\<close>

definition context_push ::
  "heap \<Rightarrow> StyledSequence \<Rightarrow> (string \<times> val) list option \<Rightarrow> string list option \<Rightarrow> origin \<Rightarrow> nat
   \<Rightarrow> error + StyledSequence" where
  "context_push h sq attribs pop_attribs mark_origin idx =
     (case context_map sq of
        None \<Rightarrow> Inl AttributeError
      | Some cm \<Rightarrow>
          (let attribs1 = (case attribs of None \<Rightarrow> [] | Some a \<Rightarrow> a);
               pop_attribs1 = (case pop_attribs of None \<Rightarrow> [] | Some p \<Rightarrow> p);
               (cm1, changed1) = pop_loop mark_origin pop_attribs1 (cm, [])
           in ebind (push_loop h mark_origin idx attribs1 (sq, cm1, changed1))
                (\<lambda>(sq2, cm2, changed2).
              ebind (write_back cm2 changed2 (ctx sq2)) (\<lambda>c.
                Inr (sq2\<lparr>context_map := Some cm2, ctx := c\<rparr>)))))"

subsection \<open>\<open>_process_to\<close> and \<open>_reprocess_from_start\<close>\<close>

text \<open>The body of the loop over the Marks \<open>get_full\<close> returned.\<close>

fun apply_marks ::
  "heap \<Rightarrow> nat \<Rightarrow> (Mark \<times> origin) list \<Rightarrow> StyledSequence \<Rightarrow> error + StyledSequence" where
  "apply_marks h idx [] sq = Inr sq"
| "apply_marks h idx ((mark_here, mark_origin) # rest) sq =
     ebind (if (case attributes mark_here of None \<Rightarrow> False | Some a \<Rightarrow> a \<noteq> [])
               \<or> (case pop_attributes mark_here of None \<Rightarrow> False | Some p \<Rightarrow> p \<noteq> [])
            then context_push h sq (attributes mark_here) (pop_attributes mark_here)
                   mark_origin idx
            else Inr sq) (\<lambda>sq1.
       let sq2 = (case moveto mark_here of
                    None \<Rightarrow> sq1
                  | Some (mtx, mty) \<Rightarrow>
                      sq1\<lparr>current_position :=
                            (case mtx of RETAIN_POS \<Rightarrow> fst (current_position sq1) | To x \<Rightarrow> x,
                             case mty of RETAIN_POS \<Rightarrow> snd (current_position sq1) | To y \<Rightarrow> y)\<rparr>);
           sq3 = (case rmoveto mark_here of
                    None \<Rightarrow> sq2
                  | Some r \<Rightarrow> sq2\<lparr>current_position := V2_add (current_position sq2) r\<rparr>)
       in apply_marks h idx rest sq3)"

text \<open>
  The part of \<open>_process_to\<close> after the first \<open>if\<close>: the Marks at the index and at the
  current position are fetched once, then applied.
\<close>

definition process_marks :: "heap \<Rightarrow> StyledSequence \<Rightarrow> nat \<Rightarrow> error + StyledSequence" where
  "process_marks h sq idx =
     (case sq_marks sq of
        None \<Rightarrow> Inl AttributeError
      | Some ma \<Rightarrow>
          ebind (get_full h ma (int idx) (current_position sq)) (\<lambda>marks.
          ebind (apply_marks h idx marks sq) (\<lambda>sq1.
            Inr (sq1\<lparr>last_index_processed := Some idx\<rparr>))))"

text \<open>\<open>_reset_context\<close>; a copy of a container is the same list.\<close>

definition reset_context :: "StyledSequence \<Rightarrow> error + StyledSequence" where
  "reset_context sq =
     (case parent_context_data sq of
        None \<Rightarrow> Inl AttributeError
      | Some pd \<Rightarrow> Inr (sq\<lparr>ctx := ctx sq ++ pd\<rparr>))"

text \<open>
  \<open>_reprocess_from_start(index)\<close> calls \<open>_process_to\<close>, which may call it back: the
  callee is the argument \<open>process\<close>.
\<close>

fun process_range ::
  "(heap \<Rightarrow> StyledSequence \<Rightarrow> nat \<Rightarrow> error + StyledSequence) \<Rightarrow> heap \<Rightarrow> StyledSequence \<Rightarrow> nat list
   \<Rightarrow> error + StyledSequence" where
  "process_range process h sq [] = Inr sq"
| "process_range process h sq (i # rest) =
     ebind (process h sq i) (\<lambda>sq1. process_range process h sq1 rest)"

definition reprocess_from_start ::
  "(heap \<Rightarrow> StyledSequence \<Rightarrow> nat \<Rightarrow> error + StyledSequence) \<Rightarrow> heap \<Rightarrow> StyledSequence \<Rightarrow> nat
   \<Rightarrow> error + StyledSequence" where
  "reprocess_from_start process h sq idx =
     (let sq1 = sq\<lparr>sanity_counter := Suc (sanity_counter sq)\<rparr>
      in if sanity_counter sq1 > 1 then Inl RuntimeError
         else ebind (reset_context sq1) (\<lambda>sq2.
              ebind (process_range process h (sq2\<lparr>last_index_processed := None\<rparr>)
                       [0..<Suc idx]) (\<lambda>sq3.
                Inr (sq3\<lparr>sanity_counter := sanity_counter sq3 - 1\<rparr>))))"

text \<open>
  \<open>_process_to(index)\<close>. The first argument is the depth of recursion still allowed;
  Python raises \<open>RecursionError\<close> when it is used up.
\<close>

primrec process_to :: "nat \<Rightarrow> heap \<Rightarrow> StyledSequence \<Rightarrow> nat \<Rightarrow> error + StyledSequence" where
  "process_to 0 = (\<lambda>h sq idx. Inl RecursionError)"
| "process_to (Suc limit) = (\<lambda>h sq idx.
     if last_index_processed sq = None \<and> idx = 0
     then process_marks h (sq\<lparr>current_position := starting_point sq\<rparr>) idx
     else if last_index_processed sq = None
             \<or> Some idx \<noteq> map_option Suc (last_index_processed sq)
     then reprocess_from_start (process_to limit) h sq idx
     else process_marks h sq idx)"

subsection \<open>Iteration\<close>

text \<open>
  \<open>_enter_iteration\<close>: the attribute stacks start with the values the Context yields, the
  Marks are a copy \<open>prepare\<close> makes of the plane's MarkMap (of a new MarkMap when there is
  no plane).
\<close>

definition enter_iteration :: "env \<Rightarrow> heap \<Rightarrow> StyledSequence \<Rightarrow> error + (heap \<times> StyledSequence)" where
  "enter_iteration E h sq =
     (let cm = (\<lambda>key. map_option (\<lambda>v. [(v, original)]) (Context_iter (ctx sq) key));
          sq1 = sq\<lparr>ctx := with_defaults (ctx sq), context_map := Some cm\<rparr>
      in ebind (case sq_text_plane sq1 of
                  Some t \<Rightarrow>
                    ebind (get_text h t) (\<lambda>tp.
                      prepare h (tp_marks tp) (mark_seq sq1) (ticks tp) (sq_text sq1))
                | None \<Rightarrow>
                    (let (h1, marks) = new_MarkMap h None
                     in prepare h1 marks (mark_seq sq1) (current_tick E) (sq_text sq1)))
           (\<lambda>(h2, inst).
              Inr (h2, sq1\<lparr>sq_marks := Some inst, active_transformers := Some []\<rparr>)))"

text \<open>\<open>_get_position_at(char, index)\<close>: the position, and the sequence moved on.\<close>

definition get_position_at ::
  "env \<Rightarrow> heap \<Rightarrow> StyledSequence \<Rightarrow> nat \<Rightarrow> error + (StyledSequence \<times> pos)" where
  "get_position_at E h sq idx =
     ebind (if last_index_processed sq \<noteq> Some idx
            then process_to (recursion_limit E) h sq idx else Inr sq) (\<lambda>sq1.
     ebind (Context_getattr (ctx sq1) ''direction'') (\<lambda>d.
       case d of
         VDir v \<Rightarrow>
           Inr (sq1\<lparr>current_position := V2_add (current_position sq1) v\<rparr>, current_position sq1)
       | _ \<Rightarrow> Inl TypeError))"

text \<open>
  \<open>_remove_transformers(tr)\<close>: the transformer leaves the list of active ones, the two
  containers of the Context, and every container on their stacks; \<open>remove\<close> on a
  container is by identity and does nothing when the transformer is not there.
\<close>

definition container_remove :: "transformer \<Rightarrow> val \<Rightarrow> error + val" where
  "container_remove tr v =
     (case v of
        VContainer l \<Rightarrow> Inr (VContainer (filter (\<lambda>x. tr_uid x \<noteq> tr_uid tr) l))
      | _ \<Rightarrow> Inl AttributeError)"

fun stack_remove :: "transformer \<Rightarrow> stack \<Rightarrow> error + stack" where
  "stack_remove tr [] = Inr []"
| "stack_remove tr ((container, org) # rest) =
     ebind (container_remove tr container) (\<lambda>c.
     ebind (stack_remove tr rest) (\<lambda>rest1. Inr ((c, org) # rest1)))"

definition remove_from_key :: "transformer \<Rightarrow> string \<Rightarrow> StyledSequence \<Rightarrow> error + StyledSequence" where
  "remove_from_key tr key sq =
     ebind (Context_getattr (ctx sq) key) (\<lambda>v.
     ebind (container_remove tr v) (\<lambda>c.
       case context_map sq of
         None \<Rightarrow> Inl AttributeError
       | Some cm \<Rightarrow>
           (case cm key of
              None \<Rightarrow> Inl TypeError
            | Some st \<Rightarrow>
                ebind (stack_remove tr st) (\<lambda>st1.
                  Inr (sq\<lparr>ctx := (ctx sq)(key \<mapsto> c), context_map := Some (cm(key \<mapsto> st1))\<rparr>)))))"

definition remove_transformers :: "transformer \<Rightarrow> StyledSequence \<Rightarrow> error + StyledSequence" where
  "remove_transformers tr sq =
     (case active_transformers sq of
        None \<Rightarrow> Inl AttributeError
      | Some act \<Rightarrow>
          if tr_uid tr \<notin> tr_uid ` set act then Inl ValueError
          else ebind (remove_from_key tr ''transformers''
                        (sq\<lparr>active_transformers :=
                              Some (filter (\<lambda>x. tr_uid x \<noteq> tr_uid tr) act)\<rparr>))
                 (remove_from_key tr ''pretransformers''))"

text \<open>The transformers whose span is over at \<open>index\<close> are removed.\<close>

fun to_remove :: "nat \<Rightarrow> transformer list \<Rightarrow> error + transformer list" where
  "to_remove idx [] = Inr []"
| "to_remove idx (tr # rest) =
     (case (sequence_absolute_start tr, sequence_len tr) of
        (Some start, Some n) \<Rightarrow>
          ebind (to_remove idx rest) (\<lambda>more.
            Inr (if int idx - int start \<ge> n then tr # more else more))
      | _ \<Rightarrow> Inl AttributeError)"

fun remove_all :: "transformer list \<Rightarrow> StyledSequence \<Rightarrow> error + StyledSequence" where
  "remove_all [] sq = Inr sq"
| "remove_all (tr # rest) sq = ebind (remove_transformers tr sq) (remove_all rest)"

definition expire_transformers :: "nat \<Rightarrow> StyledSequence \<Rightarrow> error + StyledSequence" where
  "expire_transformers idx sq =
     (case active_transformers sq of
        None \<Rightarrow> Inl AttributeError
      | Some act \<Rightarrow>
          if act = [] then Inr sq
          else ebind (to_remove idx act) (\<lambda>trs. remove_all trs sq))"

text \<open>
  \<open>__iter__\<close> is a generator: between two steps the consumer runs. \<open>consume\<close> is what the
  consumer does with the character and the position it is handed (it may change the store
  and the sequence); the values yielded are returned as well, each with the attributes the
  Context has when it is yielded.
\<close>

type_synonym consumer =
  "heap \<Rightarrow> StyledSequence \<Rightarrow> string \<Rightarrow> pos \<Rightarrow> error + (heap \<times> StyledSequence)"

fun iter_loop ::
  "env \<Rightarrow> consumer \<Rightarrow> heap \<Rightarrow> StyledSequence \<Rightarrow> (nat \<times> char) list
   \<Rightarrow> error + (heap \<times> StyledSequence \<times> (string \<times> attrs \<times> pos) list)" where
  "iter_loop E consume h sq [] = Inr (h, sq, [])"
| "iter_loop E consume h sq ((idx, char) # rest) =
     ebind (process_to (recursion_limit E) h sq idx) (\<lambda>sq1.
     ebind (get_position_at E h sq1 idx) (\<lambda>(sq2, position).
     ebind (expire_transformers idx sq2) (\<lambda>sq3.
     ebind (consume h sq3 [char] position) (\<lambda>(h1, sq4).
     ebind (iter_loop E consume h1 sq4 rest) (\<lambda>(h2, sq5, yielded).
       Inr (h2, sq5, ([char], ctx sq3, position) # yielded))))))"

text \<open>
  \<open>__iter__\<close>, run to its end. \<open>with self.context():\<close> saves the attributes set on entry
  and sets them again on exit; then the attribute \<open>marks\<close> is deleted.
\<close>

definition StyledSequence_iter ::
  "env \<Rightarrow> consumer \<Rightarrow> heap \<Rightarrow> StyledSequence
   \<Rightarrow> error + (heap \<times> StyledSequence \<times> (string \<times> attrs \<times> pos) list)" where
  "StyledSequence_iter E consume h sq =
     ebind (enter_iteration E h sq) (\<lambda>(h1, sq1).
       let saved = ctx sq1
       in ebind (iter_loop E consume h1 sq1 (enumerate 0 (sq_text sq1))) (\<lambda>(h2, sq2, yielded).
            Inr (h2, sq2\<lparr>ctx := ctx sq2 ++ saved, sq_marks := None\<rparr>, yielded)))"

text \<open>A consumer that only looks: \<open>list(styled)\<close>.\<close>

definition no_consumer :: consumer where
  "no_consumer h sq char position = Inr (h, sq)"

subsection \<open>Rendering\<close>

text \<open>
  The attributes of \<open>owner.context\<close>: \<open>last_pos\<close> is the field \<open>owner_last_pos\<close>, the
  others are \<open>owner_context\<close>. The owner's context is taken as a plain \<open>Context\<close>.
\<close>

definition owner_attrs :: "Text \<Rightarrow> attrs" where
  "owner_attrs tp = (owner_context tp)(''last_pos'' := map_option VDir (owner_last_pos tp))"

definition set_owner_attrs :: "Text \<Rightarrow> attrs \<Rightarrow> Text" where
  "set_owner_attrs tp a =
     tp\<lparr>owner_context := a(''last_pos'' := None),
        owner_last_pos := (case a ''last_pos'' of Some (VDir p) \<Rightarrow> Some p | _ \<Rightarrow> None)\<rparr>"

text \<open>
  \<open>_prepare_context\<close>: a new Context, then the attributes the owner's context yields are
  set on it. Reading them stores the defaults on the owner's context.
\<close>

definition prepare_context :: "env \<Rightarrow> heap \<Rightarrow> StyledSequence \<Rightarrow> error + (heap \<times> StyledSequence)" where
  "prepare_context E h sq =
     (case sq_text_plane sq of
        None \<Rightarrow> Inl AttributeError
      | Some t \<Rightarrow>
          ebind (get_text h t) (\<lambda>tp.
            let source = owner_attrs tp;
                sq1 = sq\<lparr>ctx := Context_new (root_context E),
                         context_serial := Suc (context_serial sq),
                         parent_context_data := Some (Context_iter source)\<rparr>
            in ebind (reset_context sq1) (\<lambda>sq2.
                 Inr (h[t := TextObj (set_owner_attrs tp (with_defaults source))], sq2))))"

text \<open>
  The body of the loop of \<open>render\<close>: \<open>Text._char_at(char, position)\<close>, then the extra step
  after a double-width character.
\<close>

definition render_char :: "env \<Rightarrow> addr \<Rightarrow> consumer" where
  "render_char E t h sq char position =
     ebind (get_text h t) (\<lambda>tp.
     ebind (char_at (EMPTY_char E) tp char position) (\<lambda>tp1.
     ebind (if (case ctx sq ''text_lastchar_was_double'' of
                  None \<Rightarrow> False | Some v \<Rightarrow> truthy_val v)
            then ebind (Context_getattr (ctx sq) ''direction'') (\<lambda>d.
                   Inr (if d = VDir (1, 0)
                        then sq\<lparr>current_position := V2_add (current_position sq) (1, 0)\<rparr>
                        else sq))
            else Inr sq) (\<lambda>sq1.
       Inr (h[t := TextObj tp1], sq1))))"

text \<open>
  \<open>StyledSequence.render()\<close> on the sequence at address \<open>s\<close>. The lock
  \<open>text_plane._render_styled_lock(self.context)\<close> enters the owner's context with the
  attribute \<open>context\<close> set to the sequence's Context, and on leaving sets again every
  attribute the owner's context had on entry. \<open>render_yield\<close> returns, with the store,
  the values the loop of \<open>render\<close> was handed; \<open>render\<close> itself returns nothing.
\<close>

definition render_yield ::
  "env \<Rightarrow> heap \<Rightarrow> addr \<Rightarrow> error + (heap \<times> (string \<times> attrs \<times> pos) list)" where
  "render_yield E h s =
     ebind (get_seq h s) (\<lambda>sq.
       case sq_text_plane sq of
         None \<Rightarrow> Inr (h, [])
       | Some t \<Rightarrow>
           ebind (prepare_context E h sq) (\<lambda>(h1, sq1).
           ebind (get_text h1 t) (\<lambda>tp.
             let saved = owner_attrs tp;
                 h2 = h1[t := TextObj (set_owner_attrs tp
                                         (saved(''context'' \<mapsto> VContext s (context_serial sq1))))]
             in ebind (StyledSequence_iter E (render_char E t) h2 sq1) (\<lambda>(h3, sq2, yielded).
                ebind (get_text h3 t) (\<lambda>tp3.
                  Inr (h3[t := TextObj (set_owner_attrs tp3 (owner_attrs tp3 ++ saved)),
                          s := SeqObj sq2], yielded))))))"

definition render :: "env \<Rightarrow> heap \<Rightarrow> addr \<Rightarrow> error + heap" where
  "render E h s = ebind (render_yield E h s) (\<lambda>(h1, yielded). Inr h1)"

section \<open>Writing styled text on a plane (text/planes.py)\<close>

text \<open>
  \<open>Text.render_styled_sequence(styled)\<close>: \<open>writtings_index\<close> is a set of sequences, by
  identity.
\<close>

definition render_styled_sequence :: "env \<Rightarrow> heap \<Rightarrow> addr \<Rightarrow> addr \<Rightarrow> error + heap" where
  "render_styled_sequence E h self styled =
     ebind (get_text h self) (\<lambda>tp.
       let h1 = (if styled \<notin> set (writtings_index tp)
                 then h[self := TextObj (tp\<lparr>writtings_index := writtings_index tp @ [styled],
                                            writtings := writtings tp @ [styled]\<rparr>)]
                 else h)
       in render E h1 styled)"



text \<open>
  \<open>MLTokenizer.__call__\<close> and \<open>Text._at(pos, text)\<close>: the text is parsed, a new
  StyledSequence is made of it and rendered on the plane.
\<close>

definition MLTokenizer_call ::
  "env \<Rightarrow> MLTokenizer \<Rightarrow> addr option \<Rightarrow> pos option \<Rightarrow> error + StyledSequence" where
  "MLTokenizer_call E self tp sp =
     ebind (parse (Effects_members E) self) (\<lambda>tk.
       case (tk_parsed_text tk, tk_mark_sequence tk) of
         (Some parsed, Some ms) \<Rightarrow>
           Inr (StyledSequence_init E parsed \<lparr>special_marks = None, offset_marks = ms\<rparr> tp sp)
       | _ \<Rightarrow> Inl AttributeError)"

definition Text_at :: "env \<Rightarrow> heap \<Rightarrow> addr \<Rightarrow> pos \<Rightarrow> string \<Rightarrow> error + heap" where
  "Text_at E h self ps tx =
     ebind (MLTokenizer_call E (MLTokenizer_init tx) (Some self) (Some ps)) (\<lambda>styled.
       let (h1, s) = alloc h (SeqObj styled)
       in render_styled_sequence E h1 self s)"

section \<open>Notions used to state properties of rendering\<close>

text \<open>The list of writings of the plane at an address.\<close>

definition plane_writtings :: "heap \<Rightarrow> addr \<Rightarrow> error + nat list" where
  "plane_writtings h t = ebind (get_text h t) (\<lambda>tp. Inr (writtings tp))"



text \<open>The stack of an attribute in a \<open>context_map\<close>: empty when the attribute has no entry.\<close>

definition stack_of :: "(string \<rightharpoonup> stack) \<Rightarrow> string \<Rightarrow> stack" where
  "stack_of cm key = (case cm key of None \<Rightarrow> [] | Some st \<Rightarrow> st)"

text \<open>
  \<open>text[pos] = tx\<close> on the plane at address \<open>self\<close> (\<open>Text._at\<close>), seen from the loop of
  \<open>render\<close>: each character it is handed, with the values the sequence's Context has for
  the given attribute names at that moment.
\<close>

definition attributes_yielded ::
  "env \<Rightarrow> heap \<Rightarrow> addr \<Rightarrow> pos \<Rightarrow> string \<Rightarrow> string list \<Rightarrow> error + (string \<times> val option list) list" where
  "attributes_yielded E h self ps tx names =
     ebind (MLTokenizer_call E (MLTokenizer_init tx) (Some self) (Some ps)) (\<lambda>styled.
       let (h1, s) = alloc h (SeqObj styled)
       in ebind (render_yield E h1 s) (\<lambda>(h2, yielded).
            Inr (map (\<lambda>(char, a, position). (char, map a names)) yielded)))"

section \<open>Example objects\<close>

text \<open>Concrete objects on which the statements below are evaluated.\<close>

definition example_text :: Text where
  "example_text =
     \<lparr>plane = \<lparr>width = 10, height = 5, cells = Map.empty\<rparr>, current_plane = R1,
      padding = 0, pad_top = None, pad_left = None, owner_last_pos = None,
      planes_last_pos = None, canvas = [], size = (10, 5), tp_marks = 5, ticks = 0,
      writtings = [], writtings_index = [], transformers_map = Map.empty,
      owner_context = Map.empty\<rparr>"

definition small_text :: Text where
  "small_text = example_text\<lparr>plane := \<lparr>width = 3, height = 2, cells = Map.empty\<rparr>,
                             size := (3, 2)\<rparr>"

definition red_mark :: Mark where
  "red_mark = \<lparr>attributes = Some [(''color'', VColor (Named ''red''))], pop_attributes = None,
               moveto = None, rmoveto = None\<rparr>"

definition newline_mark :: Mark where
  "newline_mark = \<lparr>attributes = None, pop_attributes = None,
                   moveto = Some (To 0, RETAIN_POS), rmoveto = Some (0, 1)\<rparr>"

definition blink_special :: SpecialMark where
  "blink_special = \<lparr>attributes = Some [(''effects'', VEffects 1)], pop_attributes = None,
                    moveto = None, rmoveto = None, index = tick_mod_len, ident = 7\<rparr>"

definition no_marks :: mark_sequence where
  "no_marks = \<lparr>special_marks = None, offset_marks = []\<rparr>"

text \<open>
  A store with a plane of size 10 x 5 at address 0 and its MarkMap at address 5, after
  \<open>marks[1, 0] = red_mark\<close>, \<open>marks[-1, 3] = newline_mark\<close> and
  \<open>marks["special"] = blink_special\<close>.
\<close>

definition example_markmap :: MarkMap where
  "example_markmap =
     \<lparr>data = 1, relative_data = 2, tick = 0, seq_data = no_marks, special = 3,
      concrete_special = 4, text_plane = Some 0, is_rendering_copy = False,
      parsed_text = None\<rparr>"

definition example_heap :: heap where
  "example_heap =
     [TextObj example_text,
      DictObj [((CInt 1, CInt 0), One red_mark)],
      DictObj [((CRel WIDTH (- 1), CInt 3), One newline_mark)],
      SetObj [blink_special],
      SpecialDictObj [],
      MarkMapObj example_markmap]"

text \<open>The same store after \<open>marks.prepare(no_marks, 7, "ab")\<close>, which returns address 6.\<close>

definition example_prepared :: heap where
  "example_prepared =
     example_heap @
     [MarkMapObj \<lparr>data = 8, relative_data = 2, tick = 7, seq_data = no_marks, special = 7,
                  concrete_special = 9, text_plane = Some 0, is_rendering_copy = True,
                  parsed_text = Some ''ab''\<rparr>,
      SetObj [blink_special],
      DictObj [((CInt 1, CInt 0), One red_mark), ((CInt 9, CInt 3), One newline_mark)],
      SpecialDictObj [(Idx1 1, [blink_special])]]"

text \<open>
  The store after the plane was resized to 20 x 5, and after \<open>prepare\<close> was then called
  afresh.
\<close>

definition example_resized :: heap where
  "example_resized = example_heap[0 := TextObj (example_text\<lparr>size := (20, 5)\<rparr>)]"

definition example_prepared_resized :: heap where
  "example_prepared_resized =
     example_resized @
     [MarkMapObj \<lparr>data = 8, relative_data = 2, tick = 7, seq_data = no_marks, special = 7,
                  concrete_special = 9, text_plane = Some 0, is_rendering_copy = True,
                  parsed_text = Some ''ab''\<rparr>,
      SetObj [blink_special],
      DictObj [((CInt 1, CInt 0), One red_mark), ((CInt 19, CInt 3), One newline_mark)],
      SpecialDictObj [(Idx1 1, [blink_special])]]"



text \<open>
  An environment: \<open>EMPTY\<close> is shown as \<open>~\<close>, the global context has nothing set, the
  \<open>Effects\<close> enum has the member \<open>blink\<close>.
\<close>

definition example_env :: env where
  "example_env =
     \<lparr>EMPTY_char = ''~'', root_context = Some Map.empty, current_tick = 0,
      Effects_members = (\<lambda>name. if name = ''blink'' then Some 1 else None),
      recursion_limit = 1000\<rparr>"

text \<open>
  A store with a plane of size 20 x 3 at address 0, nothing written on it, and its MarkMap
  at address 5 as \<open>_reset_marks\<close> leaves it: \<open>marks[None, y] = Mark(moveto=(0, RETAIN_POS),
  rmoveto=(0, 1))\<close> for each row.
\<close>

definition blank_text :: Text where
  "blank_text = example_text\<lparr>plane := \<lparr>width = 20, height = 3, cells = Map.empty\<rparr>,
                             size := (20, 3)\<rparr>"

definition blank_heap :: heap where
  "blank_heap =
     [TextObj blank_text,
      DictObj [],
      DictObj [((CRel WIDTH 0, CInt 0), One newline_mark),
               ((CRel WIDTH 0, CInt 1), One newline_mark),
               ((CRel WIDTH 0, CInt 2), One newline_mark)],
      SetObj [],
      SpecialDictObj [],
      MarkMapObj (example_markmap\<lparr>special := 3\<rparr>)]"

text \<open>The styled texts of the examples, as \<open>MLTokenizer\<close> parses them.\<close>

definition crossing_tags :: string where
  "crossing_tags = ''[color:blue] X [background:red] Y [/color] Z [/background]''"

definition foreground_tags :: string where
  "foreground_tags = ''[foreground:red]a[/foreground]b''"

text \<open>
  The text \<open>ab\<close> with no Marks at all, as a StyledSequence for the plane at address 0,
  and the store with it at address 6.
\<close>

definition plain_styled :: StyledSequence where
  "plain_styled = StyledSequence_init example_env ''ab'' no_marks (Some 0) (Some (0, 0))"


text \<open>
  A sequence in the middle of an iteration: the stack of \<open>color\<close> holds the value from
  the start of the iteration, then blue pushed by a Mark of the sequence, then green
  pushed by a Mark of the plane, which is the colour now in the Context.
\<close>

definition colour_stack :: stack where
  "colour_stack =
     [(VColor DEFAULT_FG, original), (VColor (Named ''blue''), sequence_origin),
      (VColor (Named ''green''), plane_origin)]"

definition pushed_styled :: StyledSequence where
  "pushed_styled =
     plain_styled\<lparr>context_map := Some [''color'' \<mapsto> colour_stack],
                  ctx := [''color'' \<mapsto> VColor (Named ''green'')]\<rparr>"

section \<open>Sequencing\<close>

lemma ebind_Inr: "(ebind m f = Inr y) = (\<exists>x. m = Inr x \<and> f x = Inr y)"
  by (cases m) (auto simp: ebind_def)

lemma ebind_Inr_simp [simp]: "ebind (Inr x) f = f x"
  by (simp add: ebind_def)

lemma ebind_Inl_simp [simp]: "ebind (Inl e) f = Inl e"
  by (simp add: ebind_def)

lemma is_ok_iff: "is_ok r = (\<exists>x. r = Inr x)"
  by (cases r) (simp_all add: is_ok_def)

section \<open>Properties of the character grid\<close>

lemma setitem_out: "\<not> in_bounds p ps \<Longrightarrow> setitem p ps v = Inl IndexError"
  by (auto simp: setitem_def in_bounds_def)

lemma setitem_in: "in_bounds p ps \<Longrightarrow> setitem p ps v = Inr (p\<lparr>cells := (cells p)(ps \<mapsto> v)\<rparr>)"
  by (auto simp: setitem_def in_bounds_def)

lemma getitem_out: "\<not> in_bounds p ps \<Longrightarrow> getitem e p ps = Inl IndexError"
  by (auto simp: getitem_def in_bounds_def)

lemma getitem_in:
  "in_bounds p ps \<Longrightarrow> getitem e p ps = Inr (case cells p ps of None \<Rightarrow> e | Some c \<Rightarrow> c)"
  by (auto simp: getitem_def in_bounds_def)

lemma in_bounds_cells_upd [simp]: "in_bounds (p\<lparr>cells := c\<rparr>) ps = in_bounds p ps"
  by (simp add: in_bounds_def)

lemma blit_plane: "blit e t ps c = Inr t' \<Longrightarrow> plane t' = plane t"
  by (auto simp: blit_def ebind_Inr split: if_splits)

lemma blit_last_pos: "blit e t ps c = Inr t' \<Longrightarrow> planes_last_pos t' = planes_last_pos t"
  by (auto simp: blit_def ebind_Inr split: if_splits)

lemma blit_in_bounds_ok:
  assumes "in_bounds (plane t) ps" and "current_plane t \<noteq> ROther"
    and "pad_top t = None" and "pad_left t = None"
  shows "\<exists>t'. blit e t ps True = Inr t'"
proof -
  obtain f where f: "pad_factors (current_plane t) = Inr f"
    using assms(2) by (cases "current_plane t") auto
  show ?thesis
    using assms f
    by (simp add: blit_def getitem_in any_padding_def pad_getter_def pad_or_padding_def)
qed

lemma blit_pad_set:
  assumes "in_bounds (plane t) ps" and "pad_top t \<noteq> None \<or> pad_left t \<noteq> None"
  shows "blit e t ps True = Inl NameError"
  using assms
  by (cases "pad_top t"; cases "pad_left t")
     (auto simp: blit_def getitem_in any_padding_def pad_getter_def pad_or_padding_def)

text \<open>
  C10. Reading the grid at an in-bounds position that was never written, or whose entry
  was deleted, gives the EMPTY value and does not raise; reading at a position outside
  \<open>[0,width) \<times> [0,height)\<close> raises IndexError, exactly as writing there does.
\<close>

theorem getitem_empty_or_IndexError:
  "(in_bounds p ps \<longrightarrow> cells p ps = None \<longrightarrow> getitem EMPTY p ps = Inr EMPTY)
   \<and> (in_bounds p ps \<longrightarrow> delitem p ps = Inr p' \<longrightarrow> getitem EMPTY p' ps = Inr EMPTY)
   \<and> (in_bounds p ps \<longrightarrow> getitem EMPTY (plane_clear p) ps = Inr EMPTY)
   \<and> (\<not> in_bounds p ps \<longrightarrow>
        getitem EMPTY p ps = Inl IndexError \<and> setitem p ps v = Inl IndexError)"
proof -
  have a: "in_bounds p ps \<longrightarrow> cells p ps = None \<longrightarrow> getitem EMPTY p ps = Inr EMPTY"
    by (simp add: getitem_in)
  have b: "in_bounds p ps \<longrightarrow> delitem p ps = Inr p' \<longrightarrow> getitem EMPTY p' ps = Inr EMPTY"
    by (auto simp: delitem_def getitem_in split: option.splits)
  have c: "in_bounds p ps \<longrightarrow> getitem EMPTY (plane_clear p) ps = Inr EMPTY"
    by (simp add: plane_clear_def getitem_in)
  have d: "\<not> in_bounds p ps \<longrightarrow>
        getitem EMPTY p ps = Inl IndexError \<and> setitem p ps v = Inl IndexError"
    by (simp add: getitem_out setitem_out)
  from a b c d show ?thesis by blast
qed

theorem getitem_empty_or_IndexError_witness:
  "getitem ''~'' \<lparr>width = 3, height = 2, cells = Map.empty\<rparr> (1, 1) = Inr ''~''
   \<and> getitem ''~'' \<lparr>width = 3, height = 2, cells = Map.empty((1, 1) := None)\<rparr> (1, 1) = Inr ''~''
   \<and> getitem ''~'' (plane_clear \<lparr>width = 3, height = 2, cells = [(1, 1) \<mapsto> ''a'']\<rparr>) (1, 1) = Inr ''~''
   \<and> getitem ''~'' \<lparr>width = 3, height = 2, cells = Map.empty\<rparr> (3, 0) = Inl IndexError
   \<and> setitem \<lparr>width = 3, height = 2, cells = Map.empty\<rparr> (3, 0) ''a'' = Inl IndexError"
  using getitem_empty_or_IndexError
          [of "\<lparr>width = 3, height = 2, cells = Map.empty\<rparr>" "(1, 1)" "''~''"
              "\<lparr>width = 3, height = 2, cells = Map.empty((1, 1) := None)\<rparr>"]
        getitem_empty_or_IndexError
          [of "\<lparr>width = 3, height = 2, cells = [(1, 1) \<mapsto> ''a'']\<rparr>" "(1, 1)" "''~''"]
        getitem_empty_or_IndexError
          [of "\<lparr>width = 3, height = 2, cells = Map.empty\<rparr>" "(3, 0)" "''~''" _ "''a''"]
  by (simp add: in_bounds_def delitem_def)

text \<open>
  C7. At a position outside \<open>[0,width) \<times> [0,height)\<close> a direct indexed write raises
  IndexError, while \<open>_char_at\<close> returns normally and leaves the plane object as it was.
  At a position inside, the direct write stores the character; \<open>_char_at\<close> stores it in
  the grid, records the position and goes on to \<open>blit\<close> with the character stored, and
  returns with it stored when \<open>blit\<close> returns: that is, on a plane of one of the
  implemented resolutions for which neither \<open>pad_top\<close> nor \<open>pad_left\<close> was set
  explicitly. When one of them was set, \<open>blit\<close> raises NameError after the character was
  stored (the getter of the pad properties reads a name that is not defined).
\<close>

theorem char_at_drops_out_of_bounds:
  "(\<not> in_bounds (plane t) ps \<longrightarrow>
       setitem (plane t) ps c = Inl IndexError \<and> char_at EMPTY t c ps = Inr t)
   \<and> (in_bounds (plane t) ps \<longrightarrow>
       (\<exists>p'. setitem (plane t) ps c = Inr p' \<and> cells p' ps = Some c
             \<and> getitem EMPTY p' ps = Inr c
             \<and> char_at EMPTY t c ps
                 = blit EMPTY (t\<lparr>plane := p', owner_last_pos := Some ps,
                                 planes_last_pos := Some ps\<rparr>) ps True))
   \<and> (in_bounds (plane t) ps \<and> current_plane t \<noteq> ROther
        \<and> pad_top t = None \<and> pad_left t = None \<longrightarrow>
       (\<exists>t'. char_at EMPTY t c ps = Inr t' \<and> cells (plane t') ps = Some c
             \<and> planes_last_pos t' = Some ps))
   \<and> (in_bounds (plane t) ps \<and> (pad_top t \<noteq> None \<or> pad_left t \<noteq> None) \<longrightarrow>
       char_at EMPTY t c ps = Inl NameError)"
proof -
  let ?t1 = "t\<lparr>plane := (plane t)\<lparr>cells := (cells (plane t))(ps \<mapsto> c)\<rparr>,
               owner_last_pos := Some ps, planes_last_pos := Some ps\<rparr>"
  have a: "\<not> in_bounds (plane t) ps \<longrightarrow>
       setitem (plane t) ps c = Inl IndexError \<and> char_at EMPTY t c ps = Inr t"
    by (simp add: setitem_out char_at_def)
  have ch: "char_at EMPTY t c ps = blit EMPTY ?t1 ps True" if "in_bounds (plane t) ps"
    using that by (simp add: char_at_def setitem_in)
  have b: "in_bounds (plane t) ps \<longrightarrow>
       (\<exists>p'. setitem (plane t) ps c = Inr p' \<and> cells p' ps = Some c
             \<and> getitem EMPTY p' ps = Inr c
             \<and> char_at EMPTY t c ps
                 = blit EMPTY (t\<lparr>plane := p', owner_last_pos := Some ps,
                                 planes_last_pos := Some ps\<rparr>) ps True)"
    using ch by (simp add: setitem_in getitem_in)
  have c: "in_bounds (plane t) ps \<and> current_plane t \<noteq> ROther
        \<and> pad_top t = None \<and> pad_left t = None \<longrightarrow>
       (\<exists>t'. char_at EMPTY t c ps = Inr t' \<and> cells (plane t') ps = Some c
             \<and> planes_last_pos t' = Some ps)"
  proof (intro impI, elim conjE)
    assume ib: "in_bounds (plane t) ps" and r: "current_plane t \<noteq> ROther"
      and pt: "pad_top t = None" and pl: "pad_left t = None"
    have "in_bounds (plane ?t1) ps" and "current_plane ?t1 \<noteq> ROther"
      and "pad_top ?t1 = None" and "pad_left ?t1 = None"
      using ib r pt pl by simp_all
    then obtain t' where t': "blit EMPTY ?t1 ps True = Inr t'"
      using blit_in_bounds_ok by blast
    have "plane t' = plane ?t1" using blit_plane [OF t'] .
    moreover have "planes_last_pos t' = Some ps"
      using blit_last_pos [OF t'] by simp
    moreover have "char_at EMPTY t c ps = Inr t'"
      using ch [OF ib] t' by simp
    ultimately show "\<exists>t'. char_at EMPTY t c ps = Inr t' \<and> cells (plane t') ps = Some c
             \<and> planes_last_pos t' = Some ps"
      by simp
  qed
  have d: "in_bounds (plane t) ps \<and> (pad_top t \<noteq> None \<or> pad_left t \<noteq> None) \<longrightarrow>
       char_at EMPTY t c ps = Inl NameError"
  proof (intro impI, elim conjE)
    assume ib: "in_bounds (plane t) ps" and p: "pad_top t \<noteq> None \<or> pad_left t \<noteq> None"
    have "in_bounds (plane ?t1) ps" and "pad_top ?t1 \<noteq> None \<or> pad_left ?t1 \<noteq> None"
      using ib p by simp_all
    from blit_pad_set [OF this] ch [OF ib]
    show "char_at EMPTY t c ps = Inl NameError" by simp
  qed
  from a b c d show ?thesis by blast
qed

theorem char_at_drops_out_of_bounds_witness:
  "setitem \<lparr>width = 3, height = 2, cells = Map.empty\<rparr> (3, 0) ''a'' = Inl IndexError
   \<and> char_at ''~'' small_text ''a'' (3, 0)
      = Inr small_text
   \<and> (\<exists>t'. char_at ''~'' small_text ''a'' (2, 1) = Inr t'
        \<and> cells (plane t') (2, 1) = Some ''a'' \<and> planes_last_pos t' = Some (2, 1))
   \<and> char_at ''~'' (small_text\<lparr>pad_top := Some 2\<rparr>) ''a'' (0, 0) = Inl NameError"
  using char_at_drops_out_of_bounds
          [of "small_text" "(3, 0)" "''a''" "''~''"]
        char_at_drops_out_of_bounds
          [of "small_text" "(2, 1)" "''a''" "''~''"]
        char_at_drops_out_of_bounds
          [of "small_text\<lparr>pad_top := Some 2\<rparr>" "(0, 0)" "''a''" "''~''"]
  by (simp add: in_bounds_def small_text_def example_text_def)

section \<open>Properties of MarkMap\<close>

subsection \<open>The store\<close>

lemma get_markmap_lt: "get_markmap h a = Inr m \<Longrightarrow> a < length h \<and> h ! a = MarkMapObj m"
  by (auto simp: get_markmap_def split: if_splits obj.splits)
lemma get_dict_lt: "get_dict h a = Inr m \<Longrightarrow> a < length h \<and> h ! a = DictObj m"
  by (auto simp: get_dict_def split: if_splits obj.splits)
lemma get_set_lt: "get_set h a = Inr m \<Longrightarrow> a < length h \<and> h ! a = SetObj m"
  by (auto simp: get_set_def split: if_splits obj.splits)
lemma get_special_dict_lt: "get_special_dict h a = Inr m \<Longrightarrow> a < length h \<and> h ! a = SpecialDictObj m"
  by (auto simp: get_special_dict_def split: if_splits obj.splits)
lemma get_text_lt: "get_text h a = Inr m \<Longrightarrow> a < length h \<and> h ! a = TextObj m"
  by (auto simp: get_text_def split: if_splits obj.splits)

subsection \<open>What prepare returns\<close>

lemma prepare_eq_aux:
  assumes m: "self < length h \<and> h ! self = MarkMapObj m"
    and sp: "special m < length h \<and> h ! special m = SetObj sp"
    and d: "data m < length h \<and> h ! data m = DictObj d"
    and rel: "relative_data m < length h \<and> h ! relative_data m = DictObj rel"
    and tp: "\<And>t. text_plane m = Some t \<Longrightarrow> t < length h \<and> h ! t = TextObj tp"
  shows "prepare h self sd tk tx =
      ebind (file_special tk (int (length tx))
               (case special_marks sd of None \<Rightarrow> sp | Some sms \<Rightarrow> set_update sp sms) [])
        (\<lambda>cs. Inr (h @ prepared_objects m sd tk tx (length h)
                     (case special_marks sd of None \<Rightarrow> sp | Some sms \<Rightarrow> set_update sp sms)
                     (case text_plane m of None \<Rightarrow> d | Some _ \<Rightarrow> merge_relative (size tp) rel d) cs,
                   length h))"
proof (cases "text_plane m")
  case None
  then show ?thesis
  using m sp d rel
  apply (cases "file_special tk (int (length tx))
               (case special_marks sd of None \<Rightarrow> sp | Some sms \<Rightarrow> set_update sp sms) []")
  apply (simp_all add: prepare_def alloc_def update_markmap_def get_markmap_def get_set_def get_dict_def get_text_def plane_size_def
      concretize_special_marks_def concretize_relative_marks_def nth_append Let_def list_update_append prepared_objects_def
      split: option.splits list.splits)
  done
next
  case (Some t')
  then have "t' < length h \<and> h ! t' = TextObj tp" using tp by simp
  with Some show ?thesis
  using m sp d rel
  apply (cases "file_special tk (int (length tx))
               (case special_marks sd of None \<Rightarrow> sp | Some sms \<Rightarrow> set_update sp sms) []")
  apply (simp_all add: prepare_def alloc_def update_markmap_def get_markmap_def get_set_def get_dict_def get_text_def plane_size_def
      concretize_special_marks_def concretize_relative_marks_def nth_append Let_def list_update_append prepared_objects_def
      split: option.splits list.splits)
  done
qed

lemma prepare_eq:
  assumes wf: "wf_markmap h self" and m: "get_markmap h self = Inr m"
  shows "prepare h self sd tk tx =
        ebind (file_special tk (int (length tx)) (effective_special h m sd) [])
          (\<lambda>cs. Inr (h @ prepared_objects m sd tk tx (length h)
                       (effective_special h m sd) (resolved_data h m) cs,
                     length h))"
proof -
  from wf m obtain sp d rel where
    sp: "get_set h (special m) = Inr sp" and d: "get_dict h (data m) = Inr d"
    and rel: "get_dict h (relative_data m) = Inr rel"
    by (auto simp: wf_markmap_def is_ok_iff)
  note ml = get_markmap_lt [OF m] and spl = get_set_lt [OF sp] and dl = get_dict_lt [OF d]
    and rl = get_dict_lt [OF rel]
  show ?thesis
  proof (cases "text_plane m")
    case None
    show ?thesis
      using prepare_eq_aux [where tp = undefined and sd = sd and tk = tk and tx = tx,
          OF ml spl dl rl] None sp d
      by (simp add: effective_special_def resolved_data_def)
  next
    case (Some t)
    with wf m obtain tp where tp: "get_text h t = Inr tp"
      by (auto simp: wf_markmap_def is_ok_iff)
    show ?thesis
      using prepare_eq_aux [where tp = tp and sd = sd and tk = tk and tx = tx,
          OF ml spl dl rl] Some get_text_lt [OF tp] sp d rel tp
      by (simp add: effective_special_def resolved_data_def)
  qed
qed

lemma get_markmap_old: "a < length h \<Longrightarrow> get_markmap (h @ xs) a = get_markmap h a"
  by (simp add: get_markmap_def nth_append)
lemma get_dict_old: "a < length h \<Longrightarrow> get_dict (h @ xs) a = get_dict h a"
  by (simp add: get_dict_def nth_append)
lemma get_set_old: "a < length h \<Longrightarrow> get_set (h @ xs) a = get_set h a"
  by (simp add: get_set_def nth_append)
lemma get_text_old: "a < length h \<Longrightarrow> get_text (h @ xs) a = get_text h a"
  by (simp add: get_text_def nth_append)

lemma wf_markmap_D:
  assumes "wf_markmap h a"
  shows "\<exists>m d r s. get_markmap h a = Inr m \<and> get_dict h (data m) = Inr d
     \<and> get_dict h (relative_data m) = Inr r \<and> get_set h (special m) = Inr s
     \<and> (\<forall>t. text_plane m = Some t \<longrightarrow> (\<exists>tp. get_text h t = Inr tp))"
  using assms by (auto simp: wf_markmap_def is_ok_iff split: sum.splits option.splits)

lemma contents_old:
  assumes "wf_markmap h a" shows "contents (h @ xs) a = contents h a"
proof -
  from assms obtain m d r s where m: "get_markmap h a = Inr m" and d: "get_dict h (data m) = Inr d"
    and r: "get_dict h (relative_data m) = Inr r" and s: "get_set h (special m) = Inr s"
    using wf_markmap_D by blast
  show ?thesis
    using m d r s get_markmap_lt [OF m] get_dict_lt [OF d] get_dict_lt [OF r] get_set_lt [OF s]
    by (simp add: contents_def get_markmap_old get_dict_old get_set_old)
qed

lemma wf_markmap_old:
  assumes "wf_markmap h a" shows "wf_markmap (h @ xs) a"
proof -
  from assms obtain m d r s where m: "get_markmap h a = Inr m" and d: "get_dict h (data m) = Inr d"
    and r: "get_dict h (relative_data m) = Inr r" and s: "get_set h (special m) = Inr s"
    and t: "\<forall>t. text_plane m = Some t \<longrightarrow> (\<exists>tp. get_text h t = Inr tp)"
    using wf_markmap_D by blast
  show ?thesis
  proof (cases "text_plane m")
    case None
    then show ?thesis
      using m d r s get_markmap_lt [OF m] get_dict_lt [OF d] get_dict_lt [OF r] get_set_lt [OF s]
      by (simp add: wf_markmap_def is_ok_def get_markmap_old get_dict_old get_set_old)
  next
    case (Some u)
    with t obtain tp where tp: "get_text h u = Inr tp" by blast
    then show ?thesis
      using m d r s Some get_markmap_lt [OF m] get_dict_lt [OF d] get_dict_lt [OF r]
        get_set_lt [OF s] get_text_lt [OF tp]
      by (simp add: wf_markmap_def is_ok_def get_markmap_old get_dict_old get_set_old get_text_old)
  qed
qed

subsection \<open>Example store\<close>

lemma example_heap_built:
  "(let (h1, a) = new_MarkMap [TextObj example_text] (Some 0)
    in ebind (setitem_at h1 a (CInt 1, CInt 0) (One red_mark)) (\<lambda>h2.
       ebind (setitem_at h2 a (CInt (- 1), CInt 3) (One newline_mark)) (\<lambda>h3.
       ebind (setitem_special h3 a blink_special) (\<lambda>h4. Inr (h4, a)))))
   = Inr (example_heap, 5)"
  by (simp add: new_MarkMap_def MarkMap_init_def alloc_def setitem_at_def setitem_special_def
      get_markmap_def get_dict_def get_set_def ebind_def normalize_relative_index_def
      example_heap_def example_markmap_def set_add_def no_marks_def)

lemma example_heap_wf: "wf_markmap example_heap 5"
  by (simp add: wf_markmap_def example_heap_def example_markmap_def get_markmap_def
      get_dict_def get_set_def get_text_def is_ok_def)

lemma example_prepare: "prepare example_heap 5 no_marks 7 ''ab'' = Inr (example_prepared, 6)"
  by (simp add: prepare_def alloc_def update_markmap_def get_markmap_def get_set_def
      get_dict_def get_text_def plane_size_def concretize_special_marks_def
      concretize_relative_marks_def Let_def ebind_def example_heap_def example_prepared_def
      example_markmap_def no_marks_def blink_special_def tick_mod_len_def setdefault_append_def merge_relative_def
      get_relative_variants_def evaluate_def merge_as_lists_def example_text_def)

subsection \<open>prepare and its parent\<close>

text \<open>
  C4. \<open>prepare\<close> returns a new object, the derived copy, and leaves every object that existed
  before the call as it was: the parent map has the same tick, the same absolute data, the
  same relative data and the same set of SpecialMarks afterwards. The copy is a rendering
  copy with the given tick; it shares the parent's relative data and has a data dict, a set
  of SpecialMarks and a \<open>_concrete_special\<close> of its own, which hold the relative marks
  resolved for the plane's size and the SpecialMarks filed under their indices.
\<close>

theorem prepare_leaves_parent_unchanged:
  assumes wf: "wf_markmap h self" and p: "prepare h self sd tk tx = Inr (h', inst)"
  shows "take (length h) h' = h \<and> inst = length h
       \<and> contents h' self = contents h self \<and> is_ok (contents h self) \<and> wf_markmap h' self
       \<and> (\<exists>m mi cs. get_markmap h self = Inr m \<and> get_markmap h' inst = Inr mi
            \<and> is_rendering_copy mi \<and> tick mi = tk \<and> relative_data mi = relative_data m
            \<and> length h \<le> data mi \<and> length h \<le> special mi \<and> length h \<le> concrete_special mi
            \<and> get_dict h' (data mi) = Inr (resolved_data h m)
            \<and> get_set h' (special mi) = Inr (effective_special h m sd)
            \<and> get_special_dict h' (concrete_special mi) = Inr cs
            \<and> file_special tk (int (length tx)) (effective_special h m sd) [] = Inr cs)"
proof -
  from wf obtain m d r s where m: "get_markmap h self = Inr m" and d: "get_dict h (data m) = Inr d"
    and r: "get_dict h (relative_data m) = Inr r" and s: "get_set h (special m) = Inr s"
    using wf_markmap_D by blast
  from p prepare_eq [OF wf m, of sd tk tx] obtain cs where
    cs: "file_special tk (int (length tx)) (effective_special h m sd) [] = Inr cs"
    and h': "h' = h @ prepared_objects m sd tk tx (length h)
                    (effective_special h m sd) (resolved_data h m) cs"
    and inst: "inst = length h"
    by (auto simp: ebind_Inr)
  have a: "take (length h) h' = h" by (simp add: h')
  have b: "contents h' self = contents h self" unfolding h' by (rule contents_old [OF wf])
  have c: "is_ok (contents h self)" using m d r s by (simp add: contents_def is_ok_def)
  have e: "wf_markmap h' self" unfolding h' by (rule wf_markmap_old [OF wf])
  have f: "get_markmap h' inst = Inr (m\<lparr>tick := tk, seq_data := sd, parsed_text := Some tx,
                 special := Suc (length h), data := Suc (Suc (length h)),
                 concrete_special := Suc (Suc (Suc (length h))), is_rendering_copy := True\<rparr>)"
    by (simp add: h' inst prepared_objects_def get_markmap_def)
  have g: "get_dict h' (Suc (Suc (length h))) = Inr (resolved_data h m)"
    "get_set h' (Suc (length h)) = Inr (effective_special h m sd)"
    "get_special_dict h' (Suc (Suc (Suc (length h)))) = Inr cs"
    by (simp_all add: h' prepared_objects_def get_dict_def get_set_def get_special_dict_def nth_append)
  from a b c e f g cs inst m show ?thesis by simp
qed

theorem prepare_leaves_parent_unchanged_witness:
  "wf_markmap example_heap 5
   \<and> prepare example_heap 5 no_marks 7 ''ab'' = Inr (example_prepared, 6)
   \<and> take 6 example_prepared = example_heap
   \<and> contents example_prepared 5 = contents example_heap 5
   \<and> contents example_heap 5 =
       Inr (0, [((CInt 1, CInt 0), One red_mark)],
            [((CRel WIDTH (- 1), CInt 3), One newline_mark)], [blink_special])
   \<and> get_dict example_prepared 8 =
       Inr [((CInt 1, CInt 0), One red_mark), ((CInt 9, CInt 3), One newline_mark)]"
proof -
  have c: "contents example_heap 5 =
       Inr (0, [((CInt 1, CInt 0), One red_mark)],
            [((CRel WIDTH (- 1), CInt 3), One newline_mark)], [blink_special])"
    by (simp add: contents_def example_heap_def example_markmap_def get_markmap_def
        get_dict_def get_set_def)
  have l: "length example_heap = 6" by (simp add: example_heap_def)
  have g: "get_dict example_prepared 8 =
       Inr [((CInt 1, CInt 0), One red_mark), ((CInt 9, CInt 3), One newline_mark)]"
    by (simp add: example_prepared_def get_dict_def l nth_append)
  show ?thesis
    using prepare_leaves_parent_unchanged [OF example_heap_wf example_prepare]
      example_heap_wf example_prepare c l g
    by simp
qed

subsection \<open>SpecialMarks and the tick\<close>

lemma setdefault_append_Cons:
  "setdefault_append ((k0, v0) # d) k m =
     (if k0 = k then (k0, v0 @ [m]) # d else (k0, v0) # setdefault_append d k m)"
  by (simp add: setdefault_append_def)

lemma setdefault_append_Nil: "setdefault_append [] k m = [(k, [m])]"
  by (simp add: setdefault_append_def)

lemma filed_under_Cons:
  "filed_under ((k0, v0) # d) i =
     (if i \<in> ident ` set v0 then k0 # filed_under d i else filed_under d i)"
  by (simp add: filed_under_def)

lemma filed_under_other:
  "ident m \<noteq> i \<Longrightarrow> filed_under (setdefault_append d k m) i = filed_under d i"
proof (induction d)
  case Nil
  then show ?case by (simp add: setdefault_append_Nil filed_under_def)
next
  case (Cons a d)
  obtain k0 v0 where a: "a = (k0, v0)" by (cases a)
  show ?case using Cons by (auto simp: a setdefault_append_Cons filed_under_Cons)
qed

lemma filed_under_new:
  "filed_under d i = [] \<Longrightarrow> ident m = i \<Longrightarrow> filed_under (setdefault_append d k m) i = [k]"
proof (induction d)
  case Nil
  then show ?case by (simp add: setdefault_append_Nil filed_under_def)
next
  case (Cons a d)
  obtain k0 v0 where a: "a = (k0, v0)" by (cases a)
  from Cons.prems(1) have n: "i \<notin> ident ` set v0" and r: "filed_under d i = []"
    by (auto simp: a filed_under_Cons split: if_splits)
  show ?case using Cons.IH [OF r Cons.prems(2)] n r Cons.prems(2)
    by (auto simp: a setdefault_append_Cons filed_under_Cons)
qed

lemma file_special_others:
  "file_special tk n ms d = Inr cs \<Longrightarrow> \<forall>m \<in> set ms. ident m \<noteq> i
   \<Longrightarrow> filed_under cs i = filed_under d i"
proof (induction ms arbitrary: d)
  case Nil
  then show ?case by simp
next
  case (Cons m ms)
  then show ?case
    by (auto simp: filed_under_other split: sum.splits)
qed

lemma file_special_one:
  "file_special tk n ms d = Inr cs \<Longrightarrow> distinct (map ident ms) \<Longrightarrow> filed_under d i = []
   \<Longrightarrow> m \<in> set ms \<Longrightarrow> ident m = i \<Longrightarrow> index m tk n = Inr k \<Longrightarrow> filed_under cs i = [k]"
proof (induction ms arbitrary: d)
  case Nil
  then show ?case by simp
next
  case (Cons m' ms)
  show ?case
  proof (cases "ident m' = i")
    case True
    with Cons.prems(2,4,5) have mm: "m' = m" by (auto simp: image_iff)
    from Cons.prems(2) True have no: "\<forall>x \<in> set ms. ident x \<noteq> i" by (auto simp: image_iff)
    from Cons.prems(1) mm Cons.prems(6)
    have fs: "file_special tk n ms (setdefault_append d k m) = Inr cs" by simp
    show ?thesis
      using file_special_others [OF fs no] filed_under_new [OF Cons.prems(3) Cons.prems(5)]
      by simp
  next
    case False
    with Cons.prems(4,5) have mem: "m \<in> set ms" by auto
    from Cons.prems(1) obtain k' where k': "index m' tk n = Inr k'"
      and fs: "file_special tk n ms (setdefault_append d k' m') = Inr cs"
      by (auto split: sum.splits)
    have e: "filed_under (setdefault_append d k' m') i = []"
      using filed_under_other [OF False] Cons.prems(3) by simp
    from Cons.prems(2) have dis: "distinct (map ident ms)" by simp
    show ?thesis
      by (rule Cons.IH [OF fs dis e mem Cons.prems(5) Cons.prems(6)])
  qed
qed

lemma positions_after_prepare_eq:
  assumes wf: "wf_markmap h self" and m: "get_markmap h self = Inr m"
  shows "positions_after_prepare h self sd tk tx i =
     ebind (file_special tk (int (length tx)) (effective_special h m sd) [])
       (\<lambda>cs. Inr (filed_under cs i))"
proof (cases "file_special tk (int (length tx)) (effective_special h m sd) []")
  case (Inl e)
  then show ?thesis
    by (simp add: positions_after_prepare_def prepare_eq [OF wf m])
next
  case (Inr cs)
  then show ?thesis
    by (simp add: positions_after_prepare_def prepare_eq [OF wf m] concrete_positions_def
        prepared_objects_def get_markmap_def get_special_dict_def nth_append)
qed

text \<open>
  C6 (as amended). A SpecialMark whose index callable is \<open>tick % len\<close>, on a text of length
  greater than 1, is filed by \<open>prepare\<close> under the single index \<open>tick mod len\<close>; so
  preparing at two ticks concretizes it to two different positions exactly when the ticks
  are not congruent modulo the length of the text.
\<close>

theorem special_mark_position_is_tick_mod_len:
  assumes wf: "wf_markmap h self" and m: "get_markmap h self = Inr m"
    and sm: "sm \<in> set (effective_special h m sd)" and idx: "index sm = tick_mod_len"
    and dis: "distinct (map ident (effective_special h m sd))"
    and len: "1 < length tx"
    and p1: "positions_after_prepare h self sd t1 tx (ident sm) = Inr ks1"
    and p2: "positions_after_prepare h self sd t2 tx (ident sm) = Inr ks2"
  shows "ks1 = [Idx1 (t1 mod int (length tx))] \<and> ks2 = [Idx1 (t2 mod int (length tx))]
       \<and> (ks1 \<noteq> ks2) = (t1 mod int (length tx) \<noteq> t2 mod int (length tx))"
proof -
  have k: "index sm t (int (length tx)) = Inr (Idx1 (t mod int (length tx)))" for t
    using len by (auto simp: idx tick_mod_len_def)
  have e: "filed_under [] (ident sm) = []" by (simp add: filed_under_def)
  have one: "positions_after_prepare h self sd t tx (ident sm) = Inr ks
      \<Longrightarrow> ks = [Idx1 (t mod int (length tx))]" for t ks
  proof -
    assume "positions_after_prepare h self sd t tx (ident sm) = Inr ks"
    then obtain cs where cs: "file_special t (int (length tx)) (effective_special h m sd) [] = Inr cs"
      and ks: "ks = filed_under cs (ident sm)"
      by (auto simp: positions_after_prepare_eq [OF wf m] ebind_Inr)
    show ?thesis
      using file_special_one [OF cs dis e sm refl k] ks by simp
  qed
  from one [OF p1] one [OF p2] show ?thesis by simp
qed

lemma example_positions:
  "positions_after_prepare example_heap 5 no_marks t ''ab'' 7 = Inr [Idx1 (t mod 2)]"
  by (simp add: positions_after_prepare_def prepare_def alloc_def update_markmap_def
      get_markmap_def get_set_def get_dict_def get_text_def plane_size_def
      concretize_special_marks_def concretize_relative_marks_def Let_def ebind_def
      example_heap_def example_markmap_def no_marks_def blink_special_def tick_mod_len_def
      setdefault_append_def concrete_positions_def get_special_dict_def filed_under_def)

lemma example_markmap_at: "get_markmap example_heap 5 = Inr example_markmap"
  by (simp add: example_heap_def get_markmap_def)

lemma example_effective_special:
  "effective_special example_heap example_markmap no_marks = [blink_special]"
  by (simp add: effective_special_def example_heap_def example_markmap_def get_set_def
      no_marks_def)

theorem special_mark_position_is_tick_mod_len_witness:
  "positions_after_prepare example_heap 5 no_marks 0 ''ab'' (ident blink_special) = Inr [Idx1 0]
   \<and> positions_after_prepare example_heap 5 no_marks 1 ''ab'' (ident blink_special) = Inr [Idx1 1]
   \<and> [Idx1 0] \<noteq> [Idx1 1]"
proof -
  have i: "ident blink_special = 7" "index blink_special = tick_mod_len"
    by (simp_all add: blink_special_def)
  have p0: "positions_after_prepare example_heap 5 no_marks 0 ''ab'' (ident blink_special)
              = Inr [Idx1 0]"
    and p1: "positions_after_prepare example_heap 5 no_marks 1 ''ab'' (ident blink_special)
              = Inr [Idx1 1]"
    using example_positions [of 0] example_positions [of 1] by (simp_all add: i)
  show ?thesis
    using special_mark_position_is_tick_mod_len [OF example_heap_wf example_markmap_at _ i(2) _ _ p0 p1]
      p0 p1
    by (simp add: example_effective_special)
qed

text \<open>
  The claim as stated fails: the ticks 0 and 2 are distinct, the text \<open>"ab"\<close> has length 2,
  and the SpecialMark is concretized to index 0 at both.
\<close>

theorem distinct_ticks_same_position:
  "positions_after_prepare example_heap 5 no_marks 0 ''ab'' (ident blink_special) = Inr [Idx1 0]
   \<and> positions_after_prepare example_heap 5 no_marks 2 ''ab'' (ident blink_special) = Inr [Idx1 0]
   \<and> index blink_special = tick_mod_len \<and> (0::int) \<noteq> 2 \<and> 1 < length ''ab''"
  using example_positions [of 0] example_positions [of 2]
  by (simp add: blink_special_def)

subsection \<open>Edge-relative marks and the size of the plane\<close>

lemma force_iter_merge_as_lists: "force_iter (merge_as_lists args) = merge_items args"
  by (auto simp: merge_as_lists_def Let_def split: list.splits)

lemma marks_at_update:
  "marks_at (AList.update k v d) c = (if k = c then force_iter v else marks_at d c)"
  by (simp add: marks_at_def update_conv')

lemma marks_at_merge_step:
  "marks_at (AList.update k
       (merge_as_lists [Some (case map_of acc k of None \<Rightarrow> Many [] | Some v \<Rightarrow> v), Some mark]) acc) c
   = marks_at acc c @ (if k = c then force_iter mark else [])"
proof (cases "k = c")
  case False
  then show ?thesis by (simp add: marks_at_update)
next
  case True
  have "merge_items [Some v, Some mark] = force_iter v @ force_iter mark" for v
    by (cases v; cases mark) simp_all
  moreover have "marks_at acc c = force_iter (case map_of acc c of None \<Rightarrow> Many [] | Some v \<Rightarrow> v)"
    by (simp add: marks_at_def split: option.splits)
  ultimately show ?thesis
    using True by (simp add: marks_at_update force_iter_merge_as_lists)
qed

lemma marks_at_merge_relative:
  "marks_at (merge_relative sz rel d) c = marks_at d c @ relative_marks_at rel sz c"
proof (induction rel arbitrary: d)
  case Nil
  then show ?case by (simp add: merge_relative_def relative_marks_at_def)
next
  case (Cons a rel)
  obtain ix mark where a: "a = (ix, mark)" by (cases a)
  have step: "merge_relative sz (a # rel) d =
      merge_relative sz rel (AList.update (concrete_index ix sz)
        (merge_as_lists [Some (case map_of d (concrete_index ix sz) of None \<Rightarrow> Many [] | Some v \<Rightarrow> v),
                         Some mark]) d)"
    by (simp add: merge_relative_def a concrete_index_def Let_def)
  show ?case
    unfolding step Cons.IH marks_at_merge_step
    by (simp add: relative_marks_at_def a)
qed

lemma resize_eq:
  assumes "get_text h t = Inr tp"
  shows "resize h t sz = Inr (h[t := TextObj (tp\<lparr>size := sz\<rparr>)])"
  using assms by (simp add: resize_def)

lemma get_markmap_upd_text:
  "get_markmap (h[t := TextObj x]) a = (if a = t then Inl TypeError else get_markmap h a)"
  by (auto simp: get_markmap_def nth_list_update)
lemma get_dict_upd_text:
  "get_dict (h[t := TextObj x]) a = (if a = t then Inl TypeError else get_dict h a)"
  by (auto simp: get_dict_def nth_list_update)
lemma get_set_upd_text:
  "get_set (h[t := TextObj x]) a = (if a = t then Inl TypeError else get_set h a)"
  by (auto simp: get_set_def nth_list_update)
lemma get_text_upd_text:
  "get_text (h[t := TextObj x]) a = (if a = t \<and> t < length h then Inr x else get_text h a)"
  by (auto simp: get_text_def nth_list_update)

text \<open>
  C5. A Mark is stored at an edge-relative coordinate; the plane's size changes; \<open>prepare\<close>
  is called afresh. Then the copy holds, at any position \<open>c\<close>, the parent's absolute Marks
  at \<open>c\<close> followed by the Marks of exactly those relative entries whose concrete position
  for the new size is \<open>c\<close>: each relative entry is found at its position for the new
  size, and a position no relative entry has for the new size (such as a stale one) gets
  nothing but the parent's absolute Marks.
\<close>

theorem relative_mark_resolves_for_current_size:
  assumes wf: "wf_markmap h self" and m: "get_markmap h self = Inr m"
    and t: "text_plane m = Some t"
    and d: "get_dict h (data m) = Inr d" and r: "get_dict h (relative_data m) = Inr rel"
    and rs: "resize h t new_size = Inr h1"
    and p: "prepare h1 self sd tk tx = Inr (h2, inst)"
  shows "marks_in h2 inst c = Inr (marks_at d c @ relative_marks_at rel new_size c)
       \<and> (\<forall>iv \<in> set rel. set (force_iter (snd iv))
             \<subseteq> set (relative_marks_at rel new_size (concrete_index (fst iv) new_size)))
       \<and> ((\<forall>iv \<in> set rel. concrete_index (fst iv) new_size \<noteq> c)
             \<longrightarrow> marks_in h2 inst c = Inr (marks_at d c))"
proof -
  from wf m t obtain tp where tp: "get_text h t = Inr tp"
    by (auto simp: wf_markmap_def is_ok_iff)
  from wf m obtain s where s: "get_set h (special m) = Inr s"
    by (auto simp: wf_markmap_def is_ok_iff)
  have h1: "h1 = h[t := TextObj (tp\<lparr>size := new_size\<rparr>)]"
    using rs resize_eq [OF tp] by simp
  note tl = get_text_lt [OF tp]
  have ne: "self \<noteq> t" "data m \<noteq> t" "relative_data m \<noteq> t" "special m \<noteq> t"
    using tl get_markmap_lt [OF m] get_dict_lt [OF d] get_dict_lt [OF r] get_set_lt [OF s]
    by auto
  have m1: "get_markmap h1 self = Inr m" using m ne by (simp add: h1 get_markmap_upd_text)
  have d1: "get_dict h1 (data m) = Inr d" using d ne by (simp add: h1 get_dict_upd_text)
  have r1: "get_dict h1 (relative_data m) = Inr rel" using r ne by (simp add: h1 get_dict_upd_text)
  have s1: "get_set h1 (special m) = Inr s" using s ne by (simp add: h1 get_set_upd_text)
  have t1: "get_text h1 t = Inr (tp\<lparr>size := new_size\<rparr>)" using tl by (simp add: h1 get_text_upd_text)
  have wf1: "wf_markmap h1 self"
    using m1 d1 r1 s1 t1 t by (simp add: wf_markmap_def is_ok_def)
  have rd: "resolved_data h1 m = merge_relative new_size rel d"
    using d1 r1 t1 t by (simp add: resolved_data_def)
  from p prepare_eq [OF wf1 m1, of sd tk tx] obtain cs where
    h2: "h2 = h1 @ prepared_objects m sd tk tx (length h1)
                    (effective_special h1 m sd) (resolved_data h1 m) cs"
    and inst: "inst = length h1"
    by (auto simp: ebind_Inr)
  have mi: "marks_in h2 inst c = Inr (marks_at (merge_relative new_size rel d) c)" for c
    by (simp add: marks_in_def h2 inst prepared_objects_def get_markmap_def get_dict_def
        nth_append rd)
  have a: "marks_in h2 inst c = Inr (marks_at d c @ relative_marks_at rel new_size c)"
    by (simp add: mi marks_at_merge_relative)
  have b: "\<forall>iv \<in> set rel. set (force_iter (snd iv))
             \<subseteq> set (relative_marks_at rel new_size (concrete_index (fst iv) new_size))"
    by (auto simp: relative_marks_at_def)
  have e: "(\<forall>iv \<in> set rel. concrete_index (fst iv) new_size \<noteq> c)
             \<longrightarrow> relative_marks_at rel new_size c = []"
    by (auto simp: relative_marks_at_def)
  from a b e show ?thesis by simp
qed

lemma example_resize: "resize example_heap 0 (20, 5) = Inr example_resized"
  by (simp add: resize_def example_heap_def example_resized_def get_text_def)

lemma example_prepare_resized:
  "prepare example_resized 5 no_marks 7 ''ab'' = Inr (example_prepared_resized, 6)"
  by (simp add: prepare_def alloc_def update_markmap_def get_markmap_def get_set_def
      get_dict_def get_text_def plane_size_def concretize_special_marks_def
      concretize_relative_marks_def Let_def ebind_def example_heap_def example_resized_def
      example_prepared_resized_def example_markmap_def no_marks_def blink_special_def
      tick_mod_len_def setdefault_append_def merge_relative_def get_relative_variants_def
      evaluate_def merge_as_lists_def example_text_def)

theorem relative_mark_resolves_for_current_size_witness:
  "resize example_heap 0 (20, 5) = Inr example_resized
   \<and> prepare example_resized 5 no_marks 7 ''ab'' = Inr (example_prepared_resized, 6)
   \<and> concrete_index (CRel WIDTH (- 1), CInt 3) (10, 5) = (CInt 9, CInt 3)
   \<and> concrete_index (CRel WIDTH (- 1), CInt 3) (20, 5) = (CInt 19, CInt 3)
   \<and> marks_in example_prepared_resized 6 (CInt 19, CInt 3) = Inr [newline_mark]
   \<and> marks_in example_prepared_resized 6 (CInt 9, CInt 3) = Inr []"
proof -
  have d: "get_dict example_heap (data example_markmap) = Inr [((CInt 1, CInt 0), One red_mark)]"
    and r: "get_dict example_heap (relative_data example_markmap)
              = Inr [((CRel WIDTH (- 1), CInt 3), One newline_mark)]"
    and t: "text_plane example_markmap = Some 0"
    by (simp_all add: example_heap_def example_markmap_def get_dict_def)
  have c: "concrete_index (CRel WIDTH (- 1), CInt 3) (10, 5) = (CInt 9, CInt 3)"
    "concrete_index (CRel WIDTH (- 1), CInt 3) (20, 5) = (CInt 19, CInt 3)"
    by (simp_all add: concrete_index_def get_relative_variants_def evaluate_def Let_def)
  show ?thesis
    using relative_mark_resolves_for_current_size
            [OF example_heap_wf example_markmap_at t d r example_resize example_prepare_resized,
             of "(CInt 19, CInt 3)"]
          relative_mark_resolves_for_current_size
            [OF example_heap_wf example_markmap_at t d r example_resize example_prepare_resized,
             of "(CInt 9, CInt 3)"]
          example_resize example_prepare_resized c
    by (simp add: relative_marks_at_def marks_at_def)
qed

subsection \<open>Deletion and iteration\<close>












lemma example_variants:
  "get_relative_variants (CInt 9, CInt 3) (10, 5) =
     [(CInt 9, CInt 3), (CRel WIDTH (- 1), CInt 3), (CInt 9, CRel HEIGHT (- 2)),
      (CRel WIDTH (- 1), CRel HEIGHT (- 2))]"
  by (simp add: get_relative_variants_def Let_def)





text \<open>
  Why the y component has to be given: \<open>get_relative_variants\<close> reads a \<open>None\<close> y as
  \<open>WIDTH_INDEX\<close>, so on a 10 x 5 plane it takes \<open>(3, None)\<close> for the row 10, while
  \<open>__setitem__\<close> files \<open>marks[3, None]\<close> under the far edge of the height.
\<close>

lemma None_y_is_read_as_width:
  "hd (get_relative_variants (CInt 3, CNone) (10, 5)) = (CInt 3, CInt 10)
   \<and> hd (spellings (CInt 3, CNone) (10, 5)) = (CInt 3, CInt 5)
   \<and> normalize_relative_index (CInt 3, CNone) = (True, (CInt 3, CRel HEIGHT 0))
   \<and> (CInt 3, CRel HEIGHT 0) \<in> set (spellings (CInt 3, CNone) (10, 5))
   \<and> (CInt 3, CRel HEIGHT 0) \<notin> set (get_relative_variants (CInt 3, CNone) (10, 5))"
  by (simp add: get_relative_variants_def spellings_def Let_def evaluate_def
      normalize_relative_index_def)

section \<open>Properties of the tokenizer\<close>

lemma parse_plain_text:
  "parse (\<lambda>n. None) (MLTokenizer_init ''plain text'')
     = Inr \<lparr>raw_text = ''plain text'', tk_parsed_text = Some ''plain text'',
            tk_mark_sequence = Some []\<rparr>"
  by code_simp

lemma parse_color_tags:
  "parse (\<lambda>n. None) (MLTokenizer_init ''a[color:red]b[/color]c'')
     = Inr \<lparr>raw_text = ''a[color:red]b[/color]c'', tk_parsed_text = Some ''abc'',
            tk_mark_sequence = Some
              [(1, One \<lparr>attributes = Some [(''color'', VColor (Named ''red''))],
                        pop_attributes = None, moveto = None, rmoveto = None\<rparr>),
               (2, One \<lparr>attributes = None, pop_attributes = Some [''color''],
                        moveto = None, rmoveto = None\<rparr>)]\<rparr>"
  by code_simp

text \<open>
  C9. Constructing the tokenizer on \<open>a\<close>, feeding it \<open>b\<close> with \<open>update\<close> and parsing gives
  the same object, hence the same \<open>parsed_text\<close> and \<open>mark_sequence\<close> (or the same
  exception), as constructing it on \<open>a + b\<close> and parsing: feeding concatenates the raw
  text, and \<open>parse\<close> reads nothing else.
\<close>

theorem parse_update_concatenates:
  "parse members (update (MLTokenizer_init a) b) = parse members (MLTokenizer_init (a @ b))
   \<and> raw_text (update (MLTokenizer_init a) b) = a @ b"
  by (simp add: update_def MLTokenizer_init_def)

section \<open>Properties of rendering\<close>

subsection \<open>Rendering leaves the lists of writings alone\<close>


















lemma set_owner_attrs_writtings [simp]:
  "writtings (set_owner_attrs tp a) = writtings tp"
  "writtings_index (set_owner_attrs tp a) = writtings_index tp"
  by (simp_all add: set_owner_attrs_def)







subsection \<open>Which sequences a plane keeps\<close>






section \<open>Properties of the attribute stacks\<close>

lemma remove_first_none:
  "\<forall>e \<in> set st. snd e \<noteq> org \<Longrightarrow> remove_first org st = st"
  by (induction st) auto

lemma remove_first_found:
  "\<forall>e \<in> set pre. snd e \<noteq> org \<Longrightarrow> remove_first org (pre @ (v, org) # post) = pre @ post"
  by (induction pre) auto

lemma pop_origin_none:
  "\<forall>e \<in> set st. snd e \<noteq> org \<Longrightarrow> pop_origin org st = st"
  by (simp add: pop_origin_def remove_first_none)

lemma pop_origin_found:
  "\<forall>e \<in> set post. snd e \<noteq> org \<Longrightarrow> pop_origin org (pre @ (v, org) # post) = pre @ post"
  using remove_first_found [of "rev post" org v "rev pre"]
  by (simp add: pop_origin_def)

lemma pop_origin_Nil [simp]: "pop_origin org [] = []"
  by (simp add: pop_origin_def)

lemma pop_loop_spec:
  assumes "distinct keys" and "\<forall>k \<in> set keys. seq_attrs k = None"
  shows "\<exists>changed'. pop_loop org keys (cm, changed) =
           ((\<lambda>k. if k \<in> set keys then Some (pop_origin org (stack_of cm k)) else cm k), changed')
         \<and> set changed' = set changed \<union> {k \<in> set keys. stack_of cm k \<noteq> []}"
  using assms
proof (induction keys arbitrary: cm changed)
  case Nil
  then show ?case by simp
next
  case (Cons key keys)
  let ?st = "stack_of cm key"
  let ?cm1 = "cm(key \<mapsto> pop_origin org ?st)"
  have k: "seq_attrs key = None" and d: "key \<notin> set keys" "distinct keys"
    and a: "\<forall>k \<in> set keys. seq_attrs k = None"
    using Cons.prems by auto
  have step: "pop_loop org (key # keys) (cm, changed)
      = pop_loop org keys (?cm1, if ?st = [] then changed else List.insert key changed)"
    by (simp add: k Let_def stack_of_def split: option.splits)
  have so: "stack_of ?cm1 k' = stack_of cm k'" if "k' \<in> set keys" for k'
    using that d by (auto simp: stack_of_def)
  from Cons.IH [OF d(2) a, of ?cm1 "if ?st = [] then changed else List.insert key changed"]
  obtain changed' where
    r: "pop_loop org keys (?cm1, if ?st = [] then changed else List.insert key changed) =
           ((\<lambda>k. if k \<in> set keys then Some (pop_origin org (stack_of ?cm1 k)) else ?cm1 k), changed')"
    and c: "set changed' = set (if ?st = [] then changed else List.insert key changed)
               \<union> {k \<in> set keys. stack_of ?cm1 k \<noteq> []}"
    by blast
  have f: "(\<lambda>k. if k \<in> set keys then Some (pop_origin org (stack_of ?cm1 k)) else ?cm1 k)
         = (\<lambda>k. if k \<in> set (key # keys) then Some (pop_origin org (stack_of cm k)) else cm k)"
    using so by (auto simp: fun_eq_iff)
  have g: "set changed' = set changed \<union> {k \<in> set (key # keys). stack_of cm k \<noteq> []}"
    using c so by auto
  show ?case unfolding step r f using g by blast
qed

lemma write_back_spec:
  "\<forall>k \<in> set changed. cm k \<noteq> None \<Longrightarrow>
   write_back cm changed c =
     Inr (\<lambda>k. if k \<in> set changed \<and> stack_of cm k \<noteq> [] then Some (fst (last (stack_of cm k)))
              else c k)"
proof (induction changed arbitrary: c)
  case Nil
  then show ?case by simp
next
  case (Cons a changed)
  then obtain st where st: "cm a = Some st" by auto
  have "write_back cm (a # changed) c
      = write_back cm changed (if st \<noteq> [] then c(a \<mapsto> fst (last st)) else c)"
    by (simp add: st)
  also have "\<dots> = Inr (\<lambda>k. if k \<in> set changed \<and> stack_of cm k \<noteq> []
                            then Some (fst (last (stack_of cm k)))
                            else (if st \<noteq> [] then c(a \<mapsto> fst (last st)) else c) k)"
    using Cons by simp
  also have "\<dots> = Inr (\<lambda>k. if k \<in> set (a # changed) \<and> stack_of cm k \<noteq> []
                            then Some (fst (last (stack_of cm k))) else c k)"
    using st by (auto simp: fun_eq_iff stack_of_def)
  finally show ?case .
qed

lemma context_push_pops:
  assumes cm: "context_map sq = Some cm"
    and d: "distinct keys" and k: "\<forall>k \<in> set keys. seq_attrs k = None"
  shows "\<exists>sq'. context_push h sq None (Some keys) org idx = Inr sq'
      \<and> context_map sq' =
           Some (\<lambda>k. if k \<in> set keys then Some (pop_origin org (stack_of cm k)) else cm k)
      \<and> ctx sq' = (\<lambda>k. if k \<in> set keys \<and> pop_origin org (stack_of cm k) \<noteq> []
                        then Some (fst (last (pop_origin org (stack_of cm k))))
                        else ctx sq k)"
proof -
  let ?cm1 = "\<lambda>k. if k \<in> set keys then Some (pop_origin org (stack_of cm k)) else cm k"
  from pop_loop_spec [OF d k, of org cm "[]"] obtain changed' where
    p: "pop_loop org keys (cm, []) = (?cm1, changed')"
    and c: "set changed' = {k \<in> set keys. stack_of cm k \<noteq> []}"
    by auto
  have "\<forall>k \<in> set changed'. ?cm1 k \<noteq> None" using c by auto
  from write_back_spec [OF this, of "ctx sq"]
  have w: "write_back ?cm1 changed' (ctx sq) =
     Inr (\<lambda>k. if k \<in> set changed' \<and> stack_of ?cm1 k \<noteq> []
              then Some (fst (last (stack_of ?cm1 k))) else ctx sq k)" .
  have e: "(\<lambda>k. if k \<in> set changed' \<and> stack_of ?cm1 k \<noteq> []
              then Some (fst (last (stack_of ?cm1 k))) else ctx sq k)
         = (\<lambda>k. if k \<in> set keys \<and> pop_origin org (stack_of cm k) \<noteq> []
                        then Some (fst (last (pop_origin org (stack_of cm k))))
                        else ctx sq k)"
    using c by (auto simp: fun_eq_iff stack_of_def)
  show ?thesis
    using cm p w e by (simp add: context_push_def)
qed

text \<open>
  C1 (as amended). For a Mark that carries only \<open>pop_attributes\<close> (names of plain
  attributes), \<open>_context_push\<close> removes from the stack of each name the topmost entry that
  was pushed by a Mark of the same origin as this one (the plane's Marks or the sequence's
  own), which need not be the top of the stack, and removes nothing when there is no such
  entry; then the top of the stack is written to the Context, and when the stack has
  become empty nothing is written: the attribute keeps its value. Rendering
  \<open>[color:blue] X [background:red] Y [/color] Z [/background]\<close> on a blank plane does not
  raise, and right after \<open>[/color]\<close> the colour is again the one the Context had when the
  iteration began (the default of the owner's context), while the background stays red.
\<close>

theorem pop_removes_topmost_entry_of_same_origin:
  assumes "context_map sq = Some cm"
    and "distinct keys" and "\<forall>k \<in> set keys. seq_attrs k = None"
  shows "(\<exists>sq'. context_push h sq None (Some keys) mark_origin idx = Inr sq'
           \<and> context_map sq' =
                Some (\<lambda>k. if k \<in> set keys then Some (pop_origin mark_origin (stack_of cm k))
                          else cm k)
           \<and> ctx sq' =
                (\<lambda>k. if k \<in> set keys \<and> pop_origin mark_origin (stack_of cm k) \<noteq> []
                      then Some (fst (last (pop_origin mark_origin (stack_of cm k))))
                      else ctx sq k))
       \<and> (\<forall>pre v post. (\<forall>e \<in> set post. snd e \<noteq> mark_origin) \<longrightarrow>
             pop_origin mark_origin (pre @ (v, mark_origin) # post) = pre @ post)
       \<and> (\<forall>st. (\<forall>e \<in> set st. snd e \<noteq> mark_origin) \<longrightarrow> pop_origin mark_origin st = st)
       \<and> is_ok (Text_at example_env blank_heap 0 (0, 0) crossing_tags)
       \<and> attributes_yielded example_env blank_heap 0 (0, 0) crossing_tags
            [''color'', ''background'']
          = Inr [('' '', [Some (VColor (Named ''blue'')), Some (VColor DEFAULT_BG)]),
                 (''X'', [Some (VColor (Named ''blue'')), Some (VColor DEFAULT_BG)]),
                 ('' '', [Some (VColor (Named ''blue'')), Some (VColor DEFAULT_BG)]),
                 ('' '', [Some (VColor (Named ''blue'')), Some (VColor (Named ''red''))]),
                 (''Y'', [Some (VColor (Named ''blue'')), Some (VColor (Named ''red''))]),
                 ('' '', [Some (VColor (Named ''blue'')), Some (VColor (Named ''red''))]),
                 ('' '', [Some (VColor DEFAULT_FG), Some (VColor (Named ''red''))]),
                 (''Z'', [Some (VColor DEFAULT_FG), Some (VColor (Named ''red''))]),
                 ('' '', [Some (VColor DEFAULT_FG), Some (VColor (Named ''red''))])]"
proof -
  note a = context_push_pops [OF assms, of h mark_origin idx]
  have b: "\<forall>pre v post. (\<forall>e \<in> set post. snd e \<noteq> mark_origin) \<longrightarrow>
             pop_origin mark_origin (pre @ (v, mark_origin) # post) = pre @ post"
    by (simp add: pop_origin_found)
  have c: "\<forall>st. (\<forall>e \<in> set st. snd e \<noteq> mark_origin) \<longrightarrow> pop_origin mark_origin st = st"
    by (simp add: pop_origin_none)
  have d: "is_ok (Text_at example_env blank_heap 0 (0, 0) crossing_tags)"
    by code_simp
  have e: "attributes_yielded example_env blank_heap 0 (0, 0) crossing_tags
            [''color'', ''background'']
          = Inr [('' '', [Some (VColor (Named ''blue'')), Some (VColor DEFAULT_BG)]),
                 (''X'', [Some (VColor (Named ''blue'')), Some (VColor DEFAULT_BG)]),
                 ('' '', [Some (VColor (Named ''blue'')), Some (VColor DEFAULT_BG)]),
                 ('' '', [Some (VColor (Named ''blue'')), Some (VColor (Named ''red''))]),
                 (''Y'', [Some (VColor (Named ''blue'')), Some (VColor (Named ''red''))]),
                 ('' '', [Some (VColor (Named ''blue'')), Some (VColor (Named ''red''))]),
                 ('' '', [Some (VColor DEFAULT_FG), Some (VColor (Named ''red''))]),
                 (''Z'', [Some (VColor DEFAULT_FG), Some (VColor (Named ''red''))]),
                 ('' '', [Some (VColor DEFAULT_FG), Some (VColor (Named ''red''))])]"
    by code_simp
  from a b c d e show ?thesis by blast
qed

theorem pop_removes_topmost_entry_of_same_origin_witness:
  "context_map pushed_styled = Some [''color'' \<mapsto> colour_stack]
   \<and> distinct [''color''] \<and> seq_attrs ''color'' = None
   \<and> (\<exists>sq'. context_push blank_heap pushed_styled None (Some [''color'']) sequence_origin 3
               = Inr sq'
         \<and> map_option (\<lambda>m. m ''color'') (context_map sq')
             = Some (Some [(VColor DEFAULT_FG, original),
                           (VColor (Named ''green''), plane_origin)])
         \<and> ctx sq' ''color'' = Some (VColor (Named ''green'')))"
proof -
  have a: "context_map pushed_styled = Some [''color'' \<mapsto> colour_stack]"
    by (simp add: pushed_styled_def)
  have b: "distinct [''color'']" by simp
  have c: "seq_attrs ''color'' = None" by (simp add: seq_attrs_def)
  then have c': "\<forall>k \<in> set [''color'']. seq_attrs k = None" by simp
  have p: "pop_origin sequence_origin colour_stack
             = [(VColor DEFAULT_FG, original), (VColor (Named ''green''), plane_origin)]"
    by (simp add: pop_origin_def colour_stack_def)
  from pop_removes_topmost_entry_of_same_origin
         [OF a b c', of blank_heap sequence_origin 3]
  obtain sq' where
    "context_push blank_heap pushed_styled None (Some [''color'']) sequence_origin 3 = Inr sq'"
    "context_map sq' =
       Some (\<lambda>k. if k \<in> set [''color'']
                 then Some (pop_origin sequence_origin (stack_of [''color'' \<mapsto> colour_stack] k))
                 else [''color'' \<mapsto> colour_stack] k)"
    "ctx sq' =
       (\<lambda>k. if k \<in> set [''color'']
                \<and> pop_origin sequence_origin (stack_of [''color'' \<mapsto> colour_stack] k) \<noteq> []
             then Some (fst (last (pop_origin sequence_origin
                                     (stack_of [''color'' \<mapsto> colour_stack] k))))
             else ctx pushed_styled k)"
    by blast
  then show ?thesis using a b c by (simp add: stack_of_def p)
qed

text \<open>
  The claim as stated fails when the stack becomes empty: \<open>foreground\<close> is not an attribute
  the Context has before it is pushed, so after \<open>[/foreground]\<close> its stack is empty,
  nothing is written, and the character after the closing tag is still yielded with the
  red foreground.
\<close>

theorem emptied_stack_writes_nothing:
  "attributes_yielded example_env blank_heap 0 (0, 0) foreground_tags [''foreground'']
     = Inr [(''a'', [Some (VColor (Named ''red''))]), (''b'', [Some (VColor (Named ''red''))])]
   \<and> ContextVar_default ''foreground'' = None
   \<and> pop_origin sequence_origin [(VColor (Named ''red''), sequence_origin)] = []"
proof -
  have a: "attributes_yielded example_env blank_heap 0 (0, 0) foreground_tags [''foreground'']
     = Inr [(''a'', [Some (VColor (Named ''red''))]), (''b'', [Some (VColor (Named ''red''))])]"
    by code_simp
  have b: "ContextVar_default ''foreground'' = None"
    by (simp add: ContextVar_default_def)
  have c: "pop_origin sequence_origin [(VColor (Named ''red''), sequence_origin)] = []"
    by (simp add: pop_origin_def)
  from a b c show ?thesis by blast
qed

end
